theory Spec2Isabelle
  imports Complex_Main
begin

section \<open>Strings\<close>

text \<open>
  A \<^verbatim>\<open>wxString\<close> is a sequence of Unicode characters and \<^verbatim>\<open>Length()\<close> counts
  them, so a string is a list of code points. \<open>wxT ''...''\<close> is the \<^verbatim>\<open>wxT("...")\<close>
  literal of the source.
\<close>

type_synonym wxChar = nat
type_synonym wxString = "wxChar list"

abbreviation wxT :: "string \<Rightarrow> wxString" where
  "wxT s \<equiv> map of_char s"

definition wxEmptyString :: wxString where
  "wxEmptyString = []"

definition wxNOT_FOUND :: int where
  "wxNOT_FOUND = - 1"

text \<open>
  The string functions of the wxWidgets library that the source calls, by their documented
  behaviour. Arguments of type \<^verbatim>\<open>size_t\<close> are 64-bit and unsigned: an \<^verbatim>\<open>int\<close>
  expression passed for one wraps modulo \<open>2 ^ 64\<close>, and \<open>to_size_t\<close> is that value.
\<close>

definition to_size_t :: "int \<Rightarrow> int" where
  "to_size_t i = i mod 2 ^ 64"

definition npos :: int where
  "npos = 2 ^ 64 - 1"

fun find_from :: "nat \<Rightarrow> wxString \<Rightarrow> wxString \<Rightarrow> int" where
  "find_from i sub [] = (if sub = [] then int i else wxNOT_FOUND)"
| "find_from i sub (x # xs) =
     (if take (length sub) (x # xs) = sub then int i else find_from (Suc i) sub xs)"

definition Find :: "wxString \<Rightarrow> wxString \<Rightarrow> int" where
  \<comment> \<open>\<^verbatim>\<open>s.Find(sub)\<close>: the index of the first occurrence of \<open>sub\<close>, or \<^verbatim>\<open>wxNOT_FOUND\<close>\<close>
  "Find s sub = find_from 0 sub s"

definition Contains :: "wxString \<Rightarrow> wxString \<Rightarrow> bool" where
  "Contains s sub = (Find s sub \<noteq> wxNOT_FOUND)"

definition Mid :: "wxString \<Rightarrow> int \<Rightarrow> int \<Rightarrow> wxString" where
  \<comment> \<open>\<^verbatim>\<open>s.Mid(nFirst, nCount)\<close>, both arguments of type \<^verbatim>\<open>size_t\<close>\<close>
  "Mid s nFirst nCount =
     (let nLen = int (length s);
          nCount = (if nCount = npos then to_size_t (nLen - nFirst) else nCount)
      in if nFirst > nLen then wxEmptyString
         else take (nat (if nCount > nLen - nFirst then nLen - nFirst else nCount))
                (drop (nat nFirst) s))"

definition SubString :: "wxString \<Rightarrow> int \<Rightarrow> int \<Rightarrow> wxString" where
  \<comment> \<open>\<^verbatim>\<open>s.SubString(from, to)\<close> is \<^verbatim>\<open>Mid(from, (to - from + 1))\<close> on \<^verbatim>\<open>size_t\<close>\<close>
  "SubString s from to =
     Mid s (to_size_t from) (to_size_t (to_size_t to - to_size_t from + 1))"

definition Right :: "wxString \<Rightarrow> int \<Rightarrow> wxString" where
  "Right s nCount = (let n = to_size_t nCount;
                         n = (if n > int (length s) then int (length s) else n)
                     in drop (length s - nat n) s)"

definition Left :: "wxString \<Rightarrow> int \<Rightarrow> wxString" where
  "Left s nCount = (let n = to_size_t nCount;
                        n = (if n > int (length s) then int (length s) else n)
                    in take (nat n) s)"

section \<open>Cells\<close>

text \<open>
  The enumerations are declared outside src/; the enumerators that the sources under src/
  name are listed, the remaining ones are \<open>TS_other\<close> and \<open>MC_TYPE_other\<close>.
\<close>

datatype TextStyle =
  TS_DEFAULT | TS_VARIABLE | TS_FUNCTION | TS_ERROR | TS_WARNING | TS_LABEL | TS_USERLABEL
  | TS_other nat

datatype CellType =
  MC_TYPE_DEFAULT | MC_TYPE_ERROR | MC_TYPE_WARNING | MC_TYPE_LABEL | MC_TYPE_INPUT
  | MC_TYPE_TEXT | MC_TYPE_TITLE | MC_TYPE_SECTION | MC_TYPE_SUBSECTION
  | MC_TYPE_SUBSUBSECTION | MC_TYPE_HEADING5 | MC_TYPE_HEADING6 | MC_TYPE_other nat

datatype GroupType =
  GC_TYPE_CODE | GC_TYPE_IMAGE | GC_TYPE_SUBSECTION | GC_TYPE_SUBSUBSECTION
  | GC_TYPE_HEADING5 | GC_TYPE_HEADING6 | GC_TYPE_other nat

datatype FracStyle = FC_NORMAL | FC_CHOOSE | FC_DIFF

datatype SumStyle = SM_SUM | SM_PROD

datatype IntStyle = INT_IDEF | INT_DEF

text \<open>
  A raw, non-owning \<^verbatim>\<open>Cell *\<close> is the address of the cell it points to, or nothing.
  Every cell carries its own address \<open>this\<close>, given to it when it is allocated.
\<close>

type_synonym CellPtr = "nat option"

text \<open>
  The state of the \<^verbatim>\<open>Cell\<close> base class, shared by every cell: the style and type tags,
  tooltip, alternate copy text, the flags, the cached metrics with the font size they were
  computed at, and the link to the next cell to draw. The width is computed by one
  measurement routine and the height and the center by another, so the font size is cached
  for each: \<open>m_widths_fontsize_old\<close> is the size the cached width was computed at, and
  \<open>m_height_fontsize_old\<close> the size the cached height and center were computed at.
\<close>

record Cell_base =
  this :: nat
  m_type :: CellType
  m_textStyle :: TextStyle
  m_toolTip :: wxString
  m_altCopyText :: wxString
  m_forceBreakLine :: bool
  m_highlightCell :: bool
  m_isHidableMultSign :: bool
  m_isExponent :: bool
  m_isBrokenIntoLines :: bool
  m_width :: int
  m_height :: int
  m_center :: int
  m_widths_fontsize_old :: int
  m_height_fontsize_old :: int
  m_nextToDraw :: CellPtr

text \<open>
  The matrix, image, slide show and group cells are declared outside src/: the records hold
  what MathParser.cpp hands to their constructors and setters.
\<close>

record MatrCell_flags =
  m_specialMatrix :: bool
  m_inferenceMatrix :: bool
  m_colNames :: bool
  m_rowNames :: bool
  m_roundedParens :: bool

record ImgCell_data =
  img_filename :: wxString
  img_fromFileSystem :: bool
  img_remove :: bool
  img_gnuplotSource :: wxString
  img_gnuplotData :: wxString
  img_drawRectangle :: bool
  img_maxWidth :: "real option"
  img_maxHeight :: "real option"

record SlideShow_data =
  slide_fromFileSystem :: bool
  slide_images :: "wxString list"
  slide_remove :: bool
  slide_frameRate :: "int option"
  slide_displayedIndex :: "int option"
  slide_animationRunning :: bool
  slide_gnuplotSources :: "(nat \<times> wxString \<times> wxString) list"

record GroupCell_data =
  m_groupType :: GroupType
  m_editableContent :: wxString
  m_hide :: bool
  m_autoAnswer :: bool
  m_knownAnswers :: "(wxString \<times> wxString) list"
  m_suppressTooltipMarker :: bool
  m_group :: CellPtr

text \<open>
  What each class adds to the base. An owning pointer to a cell owns the whole chain that
  hangs on the cell's \<^verbatim>\<open>m_next\<close>: it is the list of the chain's cells, and the null
  pointer is the empty list.
\<close>

datatype 'c Kind =
    TextCell wxString wxString
  | EditorCell wxString
  | FracCell FracStyle "'c list" "'c list"
  | DiffCell "'c list" "'c list"
  | ExptCell bool "'c list" "'c list"
  | SubCell "'c list" "'c list"
  | AtCell "'c list" "'c list"
  | FunCell "'c list" "'c list"
  | SqrtCell "'c list"
  | AbsCell "'c list"
  | ConjugateCell "'c list"
  | ParenCell "'c list" bool
  | LimitCell "'c list" "'c list" "'c list" "'c list" "'c list" "'c list"
  | SumCell SumStyle "'c list" "'c list" "'c list"
  | IntCell IntStyle "'c list" "'c list" "'c list" "'c list"
  | SubSupCell "'c list" "'c list" "'c list" "'c list" "'c list" "CellPtr list"
  | MatrCell MatrCell_flags "'c list list list"
  | ImgCell ImgCell_data
  | SlideShow SlideShow_data
  | GroupCell GroupCell_data "'c list" "'c list"

datatype Cell = Cell (base: Cell_base) (kind: "Cell Kind")

definition get :: "Cell list \<Rightarrow> CellPtr" where
  \<comment> \<open>\<^verbatim>\<open>p.get()\<close>: the address of the cell an owning pointer holds\<close>
  "get p = (case p of [] \<Rightarrow> None | c # _ \<Rightarrow> Some (this (base c)))"


subsection \<open>The base class\<close>

text \<open>
  The class \<^verbatim>\<open>Cell\<close> and the cell classes other than the function, limit and
  sub/superscript cell are declared outside src/. What the sources under src/ call of them
  and cannot be read off the spec is taken as a parameter: the measuring and rendering of a
  chain of arbitrary cells, the virtual \<^verbatim>\<open>SetNextToDraw\<close>, the pixel scaling and
  \<^verbatim>\<open>ResetData\<close>. Each is called through a pointer: \<open>ToString ops p\<close> is
  \<^verbatim>\<open>p->ToString()\<close>, the rendering of the one cell \<open>p\<close> points to, and
  \<open>ListToString ops p\<close> is \<^verbatim>\<open>p->ListToString()\<close>, the rendering of its whole chain.
  A font size is an integer. SubSupCell.cpp takes it as an \<^verbatim>\<open>AFontSize\<close>, a class
  declared outside src/, and uses it in two expressions that are taken as they stand:
  \<open>Scale_Px_EXP_INDENT ops fontsize\<close> is \<^verbatim>\<open>Scale_Px(.8 * fontsize + MC_EXP_INDENT)\<close>,
  and \<open>AFontSize_MC_MIN_SIZE ops size\<close> is the font size that the constructor call
  \<^verbatim>\<open>AFontSize{ MC_MIN_SIZE, size }\<close> makes of \<open>size\<close>.
\<close>

record Cell_ops =
  RecalculateWidthsList :: "int \<Rightarrow> Cell list \<Rightarrow> Cell list"
  RecalculateHeightList :: "int \<Rightarrow> Cell list \<Rightarrow> Cell list"
  RecalculateList :: "int \<Rightarrow> Cell list \<Rightarrow> Cell list"
  GetFullWidth :: "Cell list \<Rightarrow> int"
  GetCenterList :: "Cell list \<Rightarrow> int"
  GetHeightList :: "Cell list \<Rightarrow> int"
  GetMaxDrop :: "Cell list \<Rightarrow> int"
  Scale_Px :: "int \<Rightarrow> int"
  Scale_Px_EXP_INDENT :: "int \<Rightarrow> int"
  AFontSize_MC_MIN_SIZE :: "int \<Rightarrow> int"
  ToString :: "Cell list \<Rightarrow> wxString"
  ListToString :: "Cell list \<Rightarrow> wxString"
  ListToMatlab :: "Cell list \<Rightarrow> wxString"
  ListToTeX :: "Cell list \<Rightarrow> wxString"
  SetNextToDraw :: "CellPtr \<Rightarrow> Cell \<Rightarrow> Cell"
  ResetData :: "Cell_base \<Rightarrow> Cell_base"

definition new_Cell :: "nat \<Rightarrow> Cell_base" where
  \<comment> \<open>Modelled from the spec: the constructor of \<^verbatim>\<open>Cell\<close> is not under src/. A new cell
      has the default type and style, no tooltip, no alternate copy text, no flag set, no
      next cell to draw, and metrics that are not computed yet: no font size is cached.\<close>
  "new_Cell a = \<lparr> this = a, m_type = MC_TYPE_DEFAULT, m_textStyle = TS_DEFAULT,
       m_toolTip = wxEmptyString, m_altCopyText = wxEmptyString, m_forceBreakLine = False,
       m_highlightCell = False, m_isHidableMultSign = False, m_isExponent = False,
       m_isBrokenIntoLines = False, m_width = - 1, m_height = - 1, m_center = - 1,
       m_widths_fontsize_old = - 1, m_height_fontsize_old = - 1, m_nextToDraw = None \<rparr>"

definition new_TextCell :: "nat \<Rightarrow> wxString \<Rightarrow> TextStyle \<Rightarrow> Cell" where
  \<comment> \<open>Modelled from the spec: \<^verbatim>\<open>TextCell(parent, config, text, style)\<close>, declared
      outside src/, is a leaf cell holding the text in the given style.\<close>
  "new_TextCell a text style =
     Cell ((new_Cell a)\<lparr> m_textStyle := style \<rparr>) (TextCell text wxEmptyString)"

definition SetStyle :: "TextStyle \<Rightarrow> Cell \<Rightarrow> Cell" where
  \<comment> \<open>Modelled from the spec: \<^verbatim>\<open>SetStyle\<close> stores the cell's style tag.\<close>
  "SetStyle style c = Cell ((base c)\<lparr> m_textStyle := style \<rparr>) (kind c)"

definition SetType :: "CellType \<Rightarrow> Cell \<Rightarrow> Cell" where
  \<comment> \<open>Modelled from the spec: \<^verbatim>\<open>SetType\<close> stores the cell's type tag.\<close>
  "SetType t c = Cell ((base c)\<lparr> m_type := t \<rparr>) (kind c)"

definition SetToolTip :: "wxString \<Rightarrow> Cell \<Rightarrow> Cell" where
  \<comment> \<open>Modelled from the spec: \<^verbatim>\<open>SetToolTip\<close> stores the cell's tooltip.\<close>
  "SetToolTip tip c = Cell ((base c)\<lparr> m_toolTip := tip \<rparr>) (kind c)"

definition SetAltCopyText :: "wxString \<Rightarrow> Cell \<Rightarrow> Cell" where
  \<comment> \<open>Modelled from the spec: \<^verbatim>\<open>SetAltCopyText\<close> stores the alternate copy text.\<close>
  "SetAltCopyText text c = Cell ((base c)\<lparr> m_altCopyText := text \<rparr>) (kind c)"

definition ForceBreakLine :: "bool \<Rightarrow> Cell \<Rightarrow> Cell" where
  \<comment> \<open>Modelled from the spec: \<^verbatim>\<open>ForceBreakLine\<close> stores the force-break-line flag.\<close>
  "ForceBreakLine force c = Cell ((base c)\<lparr> m_forceBreakLine := force \<rparr>) (kind c)"

definition SetHighlight :: "bool \<Rightarrow> Cell \<Rightarrow> Cell" where
  \<comment> \<open>Modelled from the spec: \<^verbatim>\<open>SetHighlight\<close> stores the highlight flag.\<close>
  "SetHighlight highlight c = Cell ((base c)\<lparr> m_highlightCell := highlight \<rparr>) (kind c)"

definition SetExponentFlag :: "Cell \<Rightarrow> Cell" where
  \<comment> \<open>Modelled from the spec: \<^verbatim>\<open>SetExponentFlag\<close> marks the cell as part of an exponent.\<close>
  "SetExponentFlag c = Cell ((base c)\<lparr> m_isExponent := True \<rparr>) (kind c)"

definition on_head :: "(Cell \<Rightarrow> Cell) \<Rightarrow> Cell list \<Rightarrow> Cell list" where
  \<comment> \<open>\<^verbatim>\<open>p->f()\<close> through an owning pointer that is not null acts on the cell it holds,
      the first of its chain\<close>
  "on_head f p = (case p of [] \<Rightarrow> [] | c # cs \<Rightarrow> f c # cs)"

definition on_last :: "(Cell \<Rightarrow> Cell) \<Rightarrow> Cell list \<Rightarrow> Cell list" where
  \<comment> \<open>\<^verbatim>\<open>p->last()->f()\<close>: \<^verbatim>\<open>last()\<close> walks \<^verbatim>\<open>m_next\<close> to the end of the chain\<close>
  "on_last f p = (case p of [] \<Rightarrow> [] | _ # _ \<Rightarrow> butlast p @ [f (last p)])"

definition AppendCell :: "Cell list \<Rightarrow> Cell list \<Rightarrow> Cell list" where
  \<comment> \<open>Modelled from the spec: \<^verbatim>\<open>AppendCell\<close>, declared outside src/, walks to the end of
      the chain and links the appended chain there. Appending nothing changes nothing.\<close>
  "AppendCell chain p_next = chain @ p_next"

definition VisiblyInvalidCell :: "nat \<Rightarrow> Cell" where
  \<comment> \<open>Modelled from the spec: the class is declared outside src/. It is the visibly-marked,
      error-styled placeholder cell that carries a diagnostic tooltip. The spec fixes
      neither text; the text is a question mark here.\<close>
  "VisiblyInvalidCell a =
     SetToolTip (wxT ''Missing contents. Bug?'') (new_TextCell a (wxT ''?'') TS_ERROR)"

definition InvalidCellOr :: "Cell list \<Rightarrow> nat \<Rightarrow> Cell list \<times> nat" where
  \<comment> \<open>Modelled from the spec: \<^verbatim>\<open>InvalidCellOr\<close> is declared outside src/. A missing
      child is replaced by a newly allocated placeholder cell; a child that is there is
      passed on. The second component is the next free address.\<close>
  "InvalidCellOr cell heap =
     (if cell = [] then ([VisiblyInvalidCell heap], Suc heap) else (cell, heap))"

definition NeedsRecalculation :: "Cell_base \<Rightarrow> int \<Rightarrow> bool" where
  \<comment> \<open>Modelled from the spec: \<^verbatim>\<open>NeedsRecalculation\<close> is declared outside src/. The
      cached metrics are valid only for the font size they were computed at: a request at
      a font size that the width, or the height and center, was not computed at is stale.
      Every measurement routine asks this one question at its entry, so it is asked of
      all the cached metrics.\<close>
  "NeedsRecalculation b fontsize =
     (m_widths_fontsize_old b \<noteq> fontsize \<or> m_height_fontsize_old b \<noteq> fontsize)"

definition Cell_RecalculateWidths :: "int \<Rightarrow> Cell_base \<Rightarrow> Cell_base" where
  \<comment> \<open>Modelled from the spec: \<^verbatim>\<open>Cell::RecalculateWidths\<close>, which every override calls
      last, is not under src/. It records the font size the width was computed at. The
      height and the center are not its business: what they were computed at stays.\<close>
  "Cell_RecalculateWidths fontsize b = b\<lparr> m_widths_fontsize_old := fontsize \<rparr>"

definition Cell_RecalculateHeight :: "int \<Rightarrow> Cell_base \<Rightarrow> Cell_base" where
  \<comment> \<open>Modelled from the spec: \<^verbatim>\<open>Cell::RecalculateHeight\<close>, which every override calls
      last, is not under src/. It records the font size the height and the center were
      computed at.\<close>
  "Cell_RecalculateHeight fontsize b = b\<lparr> m_height_fontsize_old := fontsize \<rparr>"


definition Cell_GetNextToDrawImpl :: "Cell_base \<Rightarrow> CellPtr" where
  \<comment> \<open>\<^verbatim>\<open>Cell::GetNextToDrawImpl()\<close>: the base class's own link\<close>
  "Cell_GetNextToDrawImpl b = m_nextToDraw b"

definition wxMax :: "int \<Rightarrow> int \<Rightarrow> int" where
  "wxMax a b = (if a > b then a else b)"

subsection \<open>FunCell\<close>

text \<open>
  A function cell is \<open>Cell b (FunCell m_nameCell m_argCell)\<close>. The methods are those of
  FunCell.cpp; each is defined on function cells only.
\<close>

fun FunCell_SetName :: "Cell list \<Rightarrow> Cell \<Rightarrow> nat \<Rightarrow> Cell \<times> nat" where
  "FunCell_SetName name (Cell b (FunCell m_nameCell m_argCell)) heap =
     (let (m_nameCell, heap) = InvalidCellOr name heap;
          m_nameCell = on_head (SetStyle TS_FUNCTION) m_nameCell
      in (Cell b (FunCell m_nameCell m_argCell), heap))"

fun FunCell_SetArg :: "Cell list \<Rightarrow> Cell \<Rightarrow> nat \<Rightarrow> Cell \<times> nat" where
  "FunCell_SetArg arg (Cell b (FunCell m_nameCell m_argCell)) heap =
     (let (m_argCell, heap) = InvalidCellOr arg heap
      in (Cell b (FunCell m_nameCell m_argCell), heap))"

definition new_FunCell :: "bool \<Rightarrow> nat \<Rightarrow> Cell \<times> nat" where
  \<comment> \<open>the constructor \<^verbatim>\<open>FunCell(parent, config, init)\<close>\<close>
  "new_FunCell init heap =
     (let c = Cell (new_Cell heap) (FunCell [] []); heap = Suc heap
      in if init
         then (let (c, heap) = FunCell_SetName [] c heap in FunCell_SetArg [] c heap)
         else (c, heap))"

fun FunCell_RecalculateWidths :: "Cell_ops \<Rightarrow> int \<Rightarrow> Cell \<Rightarrow> Cell" where
  "FunCell_RecalculateWidths ops fontsize (Cell b (FunCell m_nameCell m_argCell)) =
     (if \<not> NeedsRecalculation b fontsize then Cell b (FunCell m_nameCell m_argCell)
      else
        let m_argCell = RecalculateWidthsList ops fontsize m_argCell;
            m_nameCell = RecalculateWidthsList ops fontsize m_nameCell;
            b = b\<lparr> m_width := GetFullWidth ops m_nameCell + GetFullWidth ops m_argCell
                                - Scale_Px ops 1 \<rparr>;
            b = (if m_isBrokenIntoLines b then b\<lparr> m_width := 0 \<rparr> else b)
        in Cell (Cell_RecalculateWidths fontsize b) (FunCell m_nameCell m_argCell))"

fun FunCell_RecalculateHeight :: "Cell_ops \<Rightarrow> int \<Rightarrow> Cell \<Rightarrow> Cell" where
  "FunCell_RecalculateHeight ops fontsize (Cell b (FunCell m_nameCell m_argCell)) =
     (if \<not> NeedsRecalculation b fontsize then Cell b (FunCell m_nameCell m_argCell)
      else
        let m_nameCell = RecalculateHeightList ops fontsize m_nameCell;
            m_argCell = RecalculateHeightList ops fontsize m_argCell;
            b = (if \<not> m_isBrokenIntoLines b
                 then (let m_center = wxMax (GetCenterList ops m_nameCell)
                                            (GetCenterList ops m_argCell)
                       in b\<lparr> m_center := m_center,
                             m_height := m_center + wxMax (GetMaxDrop ops m_nameCell)
                                                          (GetMaxDrop ops m_argCell) \<rparr>)
                 else b\<lparr> m_height := 0 \<rparr>)
        in Cell (Cell_RecalculateHeight fontsize b) (FunCell m_nameCell m_argCell))"

fun FunCell_ToString :: "Cell_ops \<Rightarrow> Cell \<Rightarrow> wxString" where
  "FunCell_ToString ops (Cell b (FunCell m_nameCell m_argCell)) =
     (if m_isBrokenIntoLines b then wxEmptyString
      else if m_altCopyText b \<noteq> wxEmptyString then m_altCopyText b
      else ListToString ops m_nameCell @ ListToString ops m_argCell)"

definition TeX_function_names :: "wxString list" where
  "TeX_function_names =
     [wxT ''sin'', wxT ''cos'', wxT ''cosh'', wxT ''sinh'', wxT ''log'', wxT ''cot'',
      wxT ''sec'', wxT ''csc'', wxT ''tan'']"

fun FunCell_ToTeX :: "Cell_ops \<Rightarrow> Cell \<Rightarrow> wxString" where
  "FunCell_ToTeX ops (Cell b (FunCell m_nameCell m_argCell)) =
     (if m_isBrokenIntoLines b then wxEmptyString
      else if ToString ops m_nameCell = wxT ''sin''
            \<or> ToString ops m_nameCell = wxT ''cos''
            \<or> ToString ops m_nameCell = wxT ''cosh''
            \<or> ToString ops m_nameCell = wxT ''sinh''
            \<or> ToString ops m_nameCell = wxT ''log''
            \<or> ToString ops m_nameCell = wxT ''cot''
            \<or> ToString ops m_nameCell = wxT ''sec''
            \<or> ToString ops m_nameCell = wxT ''csc''
            \<or> ToString ops m_nameCell = wxT ''tan''
      then wxT [CHR 0x5C] @ ToString ops m_nameCell @ wxT ''{''
             @ ListToTeX ops m_argCell @ wxT ''}''
      else ListToTeX ops m_nameCell @ ListToTeX ops m_argCell)"

fun FunCell_BreakUp :: "Cell_ops \<Rightarrow> Cell \<Rightarrow> bool \<times> Cell" where
  "FunCell_BreakUp ops (Cell b (FunCell m_nameCell m_argCell)) =
     (if m_isBrokenIntoLines b then (False, Cell b (FunCell m_nameCell m_argCell))
      else
        let b = b\<lparr> m_isBrokenIntoLines := True \<rparr>;
            m_nameCell = on_last (SetNextToDraw ops (get m_argCell)) m_nameCell;
            m_argCell = on_last (SetNextToDraw ops (Cell_GetNextToDrawImpl b)) m_argCell;
            b = b\<lparr> m_width := 0 \<rparr>;
            b = ResetData ops b
        in (True, Cell b (FunCell m_nameCell m_argCell)))"

fun FunCell_SetNextToDrawImpl :: "Cell_ops \<Rightarrow> CellPtr \<Rightarrow> Cell \<Rightarrow> Cell" where
  "FunCell_SetNextToDrawImpl ops next (Cell b (FunCell m_nameCell m_argCell)) =
     Cell b (FunCell m_nameCell (on_last (SetNextToDraw ops next) m_argCell))"

fun FunCell_GetNextToDrawImpl :: "Cell \<Rightarrow> CellPtr" where
  "FunCell_GetNextToDrawImpl (Cell b (FunCell m_nameCell m_argCell)) = get m_nameCell"


subsection \<open>LimitCell\<close>

text \<open>
  A limit cell is \<open>Cell b (LimitCell m_name m_under m_base m_open m_comma m_close)\<close>.
\<close>

definition MIN_LIMIT_FONT_SIZE :: int where
  "MIN_LIMIT_FONT_SIZE = 8"

definition LIMIT_FONT_SIZE_DECREASE :: int where
  "LIMIT_FONT_SIZE_DECREASE = 1"

fun LimitCell_SetName :: "Cell list \<Rightarrow> Cell \<Rightarrow> nat \<Rightarrow> Cell \<times> nat" where
  "LimitCell_SetName name (Cell b (LimitCell m_name m_under m_base m_open m_comma m_close)) heap =
     (let (m_name, heap) = InvalidCellOr name heap
      in (Cell b (LimitCell m_name m_under m_base m_open m_comma m_close), heap))"

fun LimitCell_SetBase :: "Cell list \<Rightarrow> Cell \<Rightarrow> nat \<Rightarrow> Cell \<times> nat" where
  "LimitCell_SetBase base' (Cell b (LimitCell m_name m_under m_base m_open m_comma m_close)) heap =
     (let (m_base, heap) = InvalidCellOr base' heap
      in (Cell b (LimitCell m_name m_under m_base m_open m_comma m_close), heap))"

fun LimitCell_SetUnder :: "Cell list \<Rightarrow> Cell \<Rightarrow> nat \<Rightarrow> Cell \<times> nat" where
  "LimitCell_SetUnder under' (Cell b (LimitCell m_name m_under m_base m_open m_comma m_close)) heap =
     (let (m_under, heap) = InvalidCellOr under' heap
      in (Cell b (LimitCell m_name m_under m_base m_open m_comma m_close), heap))"

definition new_LimitCell :: "bool \<Rightarrow> nat \<Rightarrow> Cell \<times> nat" where
  \<comment> \<open>the constructor \<^verbatim>\<open>LimitCell(parent, config, init)\<close>\<close>
  "new_LimitCell init heap =
     (let b = new_Cell heap;
          m_open = [new_TextCell (heap + 1) (wxT ''('') TS_DEFAULT];
          m_comma = [new_TextCell (heap + 2) (wxT '','') TS_DEFAULT];
          m_close = [new_TextCell (heap + 3) (wxT '')'') TS_DEFAULT];
          c = Cell b (LimitCell [] [] [] m_open m_comma m_close);
          heap = heap + 4;
          (c, heap) = (if init
                       then (let (c, heap) = LimitCell_SetBase [] c heap;
                                 (c, heap) = LimitCell_SetUnder [] c heap
                             in LimitCell_SetName [] c heap)
                       else (c, heap))
      in case c of Cell b (LimitCell m_name m_under m_base m_open m_comma m_close) \<Rightarrow>
           (let m_open = on_head (SetStyle TS_FUNCTION) m_open;
                m_close = on_head (SetStyle TS_FUNCTION) m_close;
                m_comma = on_head (SetStyle TS_FUNCTION) m_comma
            in (Cell b (LimitCell m_name m_under m_base m_open m_comma m_close), heap)))"

fun LimitCell_RecalculateWidths :: "Cell_ops \<Rightarrow> int \<Rightarrow> Cell \<Rightarrow> Cell" where
  "LimitCell_RecalculateWidths ops fontsize
       (Cell b (LimitCell m_name m_under m_base m_open m_comma m_close)) =
     (if \<not> NeedsRecalculation b fontsize
      then Cell b (LimitCell m_name m_under m_base m_open m_comma m_close)
      else
        let m_base = RecalculateWidthsList ops fontsize m_base;
            m_under = RecalculateWidthsList ops
                        (wxMax MIN_LIMIT_FONT_SIZE (fontsize - LIMIT_FONT_SIZE_DECREASE)) m_under;
            m_name = RecalculateWidthsList ops fontsize m_name;
            m_open = RecalculateWidthsList ops fontsize m_open;
            m_comma = RecalculateWidthsList ops fontsize m_comma;
            m_close = RecalculateWidthsList ops fontsize m_close;
            b = (if \<not> m_isBrokenIntoLines b
                 then b\<lparr> m_width := wxMax (GetFullWidth ops m_name) (GetFullWidth ops m_under)
                                      + GetFullWidth ops m_base \<rparr>
                 else b\<lparr> m_width := 0 \<rparr>)
        in Cell (Cell_RecalculateWidths fontsize b)
                (LimitCell m_name m_under m_base m_open m_comma m_close))"

fun LimitCell_RecalculateHeight :: "Cell_ops \<Rightarrow> int \<Rightarrow> Cell \<Rightarrow> Cell" where
  "LimitCell_RecalculateHeight ops fontsize
       (Cell b (LimitCell m_name m_under m_base m_open m_comma m_close)) =
     (if \<not> NeedsRecalculation b fontsize
      then Cell b (LimitCell m_name m_under m_base m_open m_comma m_close)
      else
        let m_under = RecalculateHeightList ops
                        (wxMax MIN_LIMIT_FONT_SIZE (fontsize - LIMIT_FONT_SIZE_DECREASE)) m_under;
            m_name = RecalculateHeightList ops fontsize m_name;
            m_base = RecalculateHeightList ops fontsize m_base;
            m_open = RecalculateHeightList ops fontsize m_open;
            m_comma = RecalculateHeightList ops fontsize m_comma;
            m_close = RecalculateHeightList ops fontsize m_close;
            b = (if \<not> m_isBrokenIntoLines b
                 then (let m_center = wxMax (GetCenterList ops m_base) (GetCenterList ops m_name)
                       in b\<lparr> m_center := m_center,
                             m_height := m_center
                               + wxMax (GetMaxDrop ops m_name + GetHeightList ops m_under)
                                       (GetMaxDrop ops m_base) \<rparr>)
                 else b\<lparr> m_height := GetHeightList ops m_name,
                         m_center := GetCenterList ops m_name \<rparr>)
        in Cell (Cell_RecalculateHeight fontsize b)
                (LimitCell m_name m_under m_base m_open m_comma m_close))"

definition limit_to :: "wxString \<Rightarrow> wxString" where
  \<comment> \<open>the two tests on the target value, shared by \<^verbatim>\<open>ToString\<close> and \<^verbatim>\<open>ToMatlab\<close>\<close>
  "limit_to to0 =
     (let to = (if Right to0 1 = wxT ''+''
                then Left to0 (int (length to0) - 1) @ wxT '',plus'' else to0);
          to = (if Right to 1 = wxT ''-''
                then Left to (int (length to) - 1) @ wxT '',minus'' else to)
      in to)"

fun LimitCell_ToString :: "Cell_ops \<Rightarrow> Cell \<Rightarrow> wxString" where
  "LimitCell_ToString ops (Cell b (LimitCell m_name m_under m_base m_open m_comma m_close)) =
     (let s = wxT ''limit'';
          under' = ListToString ops m_under;
          base' = ListToString ops m_base;
          var = SubString under' 0 (Find under' (wxT ''->'') - 1);
          to = SubString under' (Find under' (wxT ''->'') + 2) (int (length under') - 1);
          to = limit_to to
      in s @ wxT ''('' @ base' @ wxT '','' @ var @ wxT '','' @ to @ wxT '')'')"

fun LimitCell_ToMatlab :: "Cell_ops \<Rightarrow> Cell \<Rightarrow> wxString" where
  "LimitCell_ToMatlab ops (Cell b (LimitCell m_name m_under m_base m_open m_comma m_close)) =
     (let s = wxT ''limit'';
          under' = ListToMatlab ops m_under;
          base' = ListToMatlab ops m_base;
          var = SubString under' 0 (Find under' (wxT ''->'') - 1);
          to = SubString under' (Find under' (wxT ''->'') + 2) (int (length under') - 1);
          to = limit_to to
      in s @ wxT ''('' @ base' @ wxT '','' @ var @ wxT '','' @ to @ wxT '')'')"

fun LimitCell_BreakUp :: "Cell_ops \<Rightarrow> Cell \<Rightarrow> bool \<times> Cell" where
  "LimitCell_BreakUp ops (Cell b (LimitCell m_name m_under m_base m_open m_comma m_close)) =
     (if m_isBrokenIntoLines b
      then (False, Cell b (LimitCell m_name m_under m_base m_open m_comma m_close))
      else
        let b = b\<lparr> m_isBrokenIntoLines := True \<rparr>;
            m_name = on_last (SetNextToDraw ops (get m_open)) m_name;
            m_open = on_head (SetNextToDraw ops (get m_base)) m_open;
            m_base = on_last (SetNextToDraw ops (get m_comma)) m_base;
            m_comma = on_head (SetNextToDraw ops (get m_under)) m_comma;
            m_under = on_last (SetNextToDraw ops (get m_close)) m_under;
            m_close = on_head (SetNextToDraw ops (Cell_GetNextToDrawImpl b)) m_close;
            b = ResetData ops b
        in (True, Cell b (LimitCell m_name m_under m_base m_open m_comma m_close)))"

fun LimitCell_SetNextToDrawImpl :: "Cell_ops \<Rightarrow> CellPtr \<Rightarrow> Cell \<Rightarrow> Cell" where
  "LimitCell_SetNextToDrawImpl ops next
       (Cell b (LimitCell m_name m_under m_base m_open m_comma m_close)) =
     Cell b (LimitCell m_name m_under m_base m_open m_comma
               (on_head (SetNextToDraw ops next) m_close))"

fun LimitCell_GetNextToDrawImpl :: "Cell \<Rightarrow> CellPtr" where
  "LimitCell_GetNextToDrawImpl
       (Cell b (LimitCell m_name m_under m_base m_open m_comma m_close)) = get m_name"


section \<open>The XML tree\<close>

datatype wxXmlNodeType =
  wxXML_ELEMENT_NODE | wxXML_TEXT_NODE | wxXML_CDATA_SECTION_NODE | wxXML_other_NODE nat

datatype wxXmlNode =
  wxXmlNode (GetType: wxXmlNodeType) (GetName: wxString) (GetContent: wxString)
            (GetAttributes: "(wxString \<times> wxString) list") (GetChildren: "wxXmlNode list")

text \<open>
  A \<^verbatim>\<open>wxXmlNode *\<close> gives access to the node it points to and, through
  \<^verbatim>\<open>GetNext()\<close>, to the siblings that follow: it is the list of the node and its
  following siblings, and the null pointer is the empty list.
\<close>

type_synonym wxXmlNodePtr = "wxXmlNode list"

definition GetNext :: "wxXmlNodePtr \<Rightarrow> wxXmlNodePtr" where
  "GetNext node = tl node"

definition GetAttribute :: "wxXmlNode \<Rightarrow> wxString \<Rightarrow> wxString \<Rightarrow> wxString" where
  \<comment> \<open>\<^verbatim>\<open>GetAttribute(name, default)\<close>\<close>
  "GetAttribute n name dflt = (case map_of (GetAttributes n) name of Some v \<Rightarrow> v | None \<Rightarrow> dflt)"

definition GetAttribute_ptr :: "wxXmlNode \<Rightarrow> wxString \<Rightarrow> wxString option" where
  \<comment> \<open>\<^verbatim>\<open>GetAttribute(name, &value)\<close>: whether the attribute is there, and its value\<close>
  "GetAttribute_ptr n name = map_of (GetAttributes n) name"

definition GetNodeContent :: "wxXmlNode \<Rightarrow> wxString" where
  \<comment> \<open>the content of the first child that is a text or a CDATA section\<close>
  "GetNodeContent n =
     (case filter (\<lambda>c. GetType c = wxXML_TEXT_NODE \<or> GetType c = wxXML_CDATA_SECTION_NODE)
             (GetChildren n) of
        [] \<Rightarrow> wxEmptyString | c # _ \<Rightarrow> GetContent c)"

fun split_on :: "wxChar \<Rightarrow> wxString \<Rightarrow> wxString list" where
  "split_on d [] = [[]]"
| "split_on d (c # cs) =
     (if c = d then [] # split_on d cs
      else (case split_on d cs of [] \<Rightarrow> [[c]] | t # ts \<Rightarrow> (c # t) # ts))"

definition tokens_STRTOK :: "wxChar \<Rightarrow> wxString \<Rightarrow> wxString list" where
  \<comment> \<open>\<^verbatim>\<open>wxStringTokenizer\<close> with a whitespace delimiter: no empty token is returned\<close>
  "tokens_STRTOK d s = filter (\<lambda>t. t \<noteq> []) (split_on d s)"

definition tokens_RET_EMPTY :: "wxChar \<Rightarrow> wxString \<Rightarrow> wxString list" where
  \<comment> \<open>\<^verbatim>\<open>wxStringTokenizer\<close> with another delimiter: empty tokens are returned, but for
      the trailing one\<close>
  "tokens_RET_EMPTY d s = (let ts = split_on d s in if last ts = [] then butlast ts else ts)"

fun decimal :: "nat \<Rightarrow> wxString" where
  "decimal n = (if n < 10 then [48 + n] else decimal (n div 10) @ [48 + n mod 10])"

declare decimal.simps [simp del]

section \<open>The parser\<close>

datatype error = OutOfFuel | NullDereference | OutOfRange

text \<open>
  The members of \<^verbatim>\<open>MathParser\<close> that the parse routines read and write, together with
  what the routines do to the world around them: \<open>heap_top\<close> is the next free address, and the
  two logs record the message boxes shown and the texts handed to the XML loader, latest
  first.
\<close>

record state =
  m_ParserStyle :: CellType
  m_FracStyle :: FracStyle
  m_highlight :: bool
  m_fileSystem :: bool
  m_userDefinedLabel :: wxString
  heap_top :: nat
  messageBoxes :: "wxString list"
  xmlLoads :: "wxString list"

type_synonym 'a result = "error + 'a \<times> state"

definition and_then :: "'a result \<Rightarrow> ('a \<Rightarrow> state \<Rightarrow> 'b result) \<Rightarrow> 'b result" where
  \<comment> \<open>sequencing: a failure of the first computation is the failure of the whole\<close>
  "and_then r f = (case r of Inl e \<Rightarrow> Inl e | Inr (x, s) \<Rightarrow> f x s)"

text \<open>
  What the parser takes from outside src/: the library and the configuration, the operations
  of cells, and the parse routines that the constructor registers but MathParser.cpp does
  not define.
\<close>

record externals =
  cell_ops :: Cell_ops
  wxIsspace :: "wxChar \<Rightarrow> bool"
  iscntrl :: "wxChar \<Rightarrow> bool"
  gettext :: "wxString \<Rightarrow> wxString"
  ToLong :: "wxString \<Rightarrow> int option"
  ToDouble :: "wxString \<Rightarrow> real option"
  ShowLength :: int
  xml_Load :: "wxString \<Rightarrow> wxXmlNode option"
  GetImageCount :: "wxString \<Rightarrow> int"
  wxFileExists :: "wxString \<Rightarrow> bool"
  GetWorkingDirectory :: wxString
  ParseVariableNameTag :: "wxXmlNodePtr \<Rightarrow> state \<Rightarrow> Cell list result"
  ParseOperatorNameTag :: "wxXmlNodePtr \<Rightarrow> state \<Rightarrow> Cell list result"
  ParseNumberTag :: "wxXmlNodePtr \<Rightarrow> state \<Rightarrow> Cell list result"
  ParseGreekTag :: "wxXmlNodePtr \<Rightarrow> state \<Rightarrow> Cell list result"
  ParseSpecialConstantTag :: "wxXmlNodePtr \<Rightarrow> state \<Rightarrow> Cell list result"
  ParseFunctionNameTag :: "wxXmlNodePtr \<Rightarrow> state \<Rightarrow> Cell list result"
  ParseSpaceTag :: "wxXmlNodePtr \<Rightarrow> state \<Rightarrow> Cell list result"
  ParseStringTag :: "wxXmlNodePtr \<Rightarrow> state \<Rightarrow> Cell list result"
  GroupCellFromPagebreakTag :: "wxXmlNodePtr \<Rightarrow> state \<Rightarrow> Cell list result"
  GroupCellFromTextTag :: "wxXmlNodePtr \<Rightarrow> state \<Rightarrow> Cell list result"
  GroupCellFromTitleTag :: "wxXmlNodePtr \<Rightarrow> state \<Rightarrow> Cell list result"
  GroupCellFromSectionTag :: "wxXmlNodePtr \<Rightarrow> state \<Rightarrow> Cell list result"
  GroupCellFromSubsubsectionTag :: "wxXmlNodePtr \<Rightarrow> state \<Rightarrow> Cell list result"
  GroupCellHeading5Tag :: "wxXmlNodePtr \<Rightarrow> state \<Rightarrow> Cell list result"
  GroupCellHeading6Tag :: "wxXmlNodePtr \<Rightarrow> state \<Rightarrow> Cell list result"

definition Trim :: "externals \<Rightarrow> wxString \<Rightarrow> wxString" where
  \<comment> \<open>\<^verbatim>\<open>Trim()\<close> removes the white space at the right end\<close>
  "Trim ext s = rev (dropWhile (wxIsspace ext) (rev s))"

definition SkipWhitespaceNode :: "externals \<Rightarrow> wxXmlNodePtr \<Rightarrow> wxXmlNodePtr" where
  "SkipWhitespaceNode ext node =
     (case node of
        [] \<Rightarrow> []
      | n # _ \<Rightarrow>
          if GetType n = wxXML_TEXT_NODE
          then (if length (Trim ext (GetContent n)) \<le> 1 then GetNext node else node)
          else node)"

definition GetNextTag :: "externals \<Rightarrow> wxXmlNodePtr \<Rightarrow> wxXmlNodePtr" where
  "GetNextTag ext node = SkipWhitespaceNode ext (if node \<noteq> [] then GetNext node else node)"

definition alloc :: "state \<Rightarrow> nat \<times> state" where
  \<comment> \<open>the address of a newly allocated cell\<close>
  "alloc s = (heap_top s, s\<lparr> heap_top := Suc (heap_top s) \<rparr>)"

definition HandleNullPointer :: "externals \<Rightarrow> Cell list \<Rightarrow> state \<Rightarrow> Cell list \<times> state" where
  "HandleNullPointer ext cell s =
     (let retval = cell
      in if retval = []
         then (let (a, s) = alloc s;
                   retval = new_TextCell a (gettext ext (wxT ''Bug: Missing contents'')) TS_DEFAULT;
                   retval = SetToolTip (gettext ext
                     (wxT ''The xml data from maxima or from the .wxmx file was missing data here.''
                      @ [10] @
                      wxT ''If you find a way how to reproduce this problem please file a bug ''
                      @ wxT ''report against wxMaxima.'')) retval;
                   retval = SetStyle TS_ERROR retval
               in ([retval], s))
         else (retval, s))"

definition ParseCommonAttrs :: "wxXmlNodePtr \<Rightarrow> Cell list \<Rightarrow> Cell list" where
  "ParseCommonAttrs node cell =
     (case (cell, node) of
        (c # cs, n # _) \<Rightarrow>
          (let c = (if GetAttribute n (wxT ''breakline'') (wxT ''false'') = wxT ''true''
                    then ForceBreakLine True c else c);
               c = (case GetAttribute_ptr n (wxT ''tooltip'') of
                      Some val \<Rightarrow> SetToolTip val c | None \<Rightarrow> c);
               c = (case GetAttribute_ptr n (wxT ''altCopy'') of
                      Some val \<Rightarrow> SetAltCopyText val c | None \<Rightarrow> c)
           in c # cs)
      | _ \<Rightarrow> cell)"

definition SetValue :: "wxString \<Rightarrow> Cell \<Rightarrow> Cell" where
  \<comment> \<open>Modelled from the spec: \<^verbatim>\<open>SetValue\<close> of the text and editor cells, declared outside
      src/, stores the cell's text.\<close>
  "SetValue text c =
     (case kind c of
        TextCell _ lbl \<Rightarrow> Cell (base c) (TextCell text lbl)
      | EditorCell _ \<Rightarrow> Cell (base c) (EditorCell text)
      | _ \<Rightarrow> c)"

definition GetValue :: "Cell list \<Rightarrow> wxString" where
  \<comment> \<open>Modelled from the spec: \<^verbatim>\<open>GetValue\<close>, declared outside src/, is the text of a text
      or editor cell; other cells have none.\<close>
  "GetValue p =
     (case p of
        [] \<Rightarrow> wxEmptyString
      | c # _ \<Rightarrow> (case kind c of TextCell text _ \<Rightarrow> text | EditorCell text \<Rightarrow> text
                   | _ \<Rightarrow> wxEmptyString))"

fun ParseText_lines :: "wxString list \<Rightarrow> TextStyle \<Rightarrow> Cell list \<Rightarrow> state \<Rightarrow> Cell list \<times> state" where
  "ParseText_lines [] style retval s = (retval, s)"
| "ParseText_lines (token # lines) style retval s =
     (let (a, s) = alloc s;
          cell = new_TextCell a wxEmptyString TS_DEFAULT;
          cell = (case style of
                    TS_ERROR \<Rightarrow> SetType MC_TYPE_ERROR cell
                  | TS_WARNING \<Rightarrow> SetType MC_TYPE_WARNING cell
                  | TS_LABEL \<Rightarrow> SetType MC_TYPE_LABEL cell
                  | TS_USERLABEL \<Rightarrow> SetType MC_TYPE_LABEL cell
                  | _ \<Rightarrow> SetType (m_ParserStyle s) cell);
          cell = SetStyle style cell;
          cell = SetHighlight (m_highlight s) cell;
          cell = SetValue token cell;
          retval = (if retval = [] then [cell]
                    else AppendCell retval [ForceBreakLine True cell])
      in ParseText_lines lines style retval s)"

definition ParseText :: "wxXmlNodePtr \<Rightarrow> TextStyle \<Rightarrow> state \<Rightarrow> Cell list \<times> state" where
  "ParseText node style s =
     (let str = (case node of [] \<Rightarrow> wxEmptyString | n # _ \<Rightarrow> GetContent n);
          (retval, s) =
            (if node \<noteq> [] \<and> str \<noteq> wxEmptyString
             then ParseText_lines
                    (tokens_STRTOK 10 (map (\<lambda>c. if c = 45 then 8722 else c) str)) style [] s
             else ([], s));
          (retval, s) = (if retval = []
                         then (let (a, s) = alloc s in ([new_TextCell a wxEmptyString TS_DEFAULT], s))
                         else (retval, s))
      in (ParseCommonAttrs node retval, s))"


subsection \<open>SubSupCell\<close>

text \<open>
  The setters of SubSupCell.cpp. A sub/superscript cell is
  \<open>Cell b (SubSupCell m_baseCell m_postSubCell m_postSupCell m_preSubCell m_preSupCell
  m_scriptCells)\<close>; \<open>m_scriptCells\<close> is a vector of non-owning pointers.
\<close>

definition RemoveCell :: "CellPtr list \<Rightarrow> Cell list \<Rightarrow> CellPtr list" where
  "RemoveCell cells cell = filter (\<lambda>p. p \<noteq> get cell) cells"

definition new_SubSupCell :: "nat \<Rightarrow> Cell \<times> nat" where
  "new_SubSupCell heap =
     (Cell (new_Cell heap) (SubSupCell [VisiblyInvalidCell (Suc heap)] [] [] [] [] []),
      Suc (Suc heap))"

fun SubSupCell_SetPreSup :: "Cell list \<Rightarrow> Cell \<Rightarrow> Cell" where
  "SubSupCell_SetPreSup index (Cell b (SubSupCell m_baseCell m_postSubCell m_postSupCell
       m_preSubCell m_preSupCell m_scriptCells)) =
     (if index = []
      then Cell b (SubSupCell m_baseCell m_postSubCell m_postSupCell m_preSubCell m_preSupCell
                     m_scriptCells)
      else let m_scriptCells = RemoveCell m_scriptCells m_preSupCell;
               m_preSupCell = index;
               m_scriptCells = m_scriptCells @ [get m_preSupCell]
           in Cell b (SubSupCell m_baseCell m_postSubCell m_postSupCell m_preSubCell
                        m_preSupCell m_scriptCells))"

fun SubSupCell_SetPreSub :: "Cell list \<Rightarrow> Cell \<Rightarrow> Cell" where
  "SubSupCell_SetPreSub index (Cell b (SubSupCell m_baseCell m_postSubCell m_postSupCell
       m_preSubCell m_preSupCell m_scriptCells)) =
     (if index = []
      then Cell b (SubSupCell m_baseCell m_postSubCell m_postSupCell m_preSubCell m_preSupCell
                     m_scriptCells)
      else let m_scriptCells = RemoveCell m_scriptCells m_preSubCell;
               m_preSubCell = index;
               m_scriptCells = m_scriptCells @ [get m_preSubCell]
           in Cell b (SubSupCell m_baseCell m_postSubCell m_postSupCell m_preSubCell
                        m_preSupCell m_scriptCells))"

fun SubSupCell_SetPostSup :: "Cell list \<Rightarrow> Cell \<Rightarrow> Cell" where
  "SubSupCell_SetPostSup index (Cell b (SubSupCell m_baseCell m_postSubCell m_postSupCell
       m_preSubCell m_preSupCell m_scriptCells)) =
     (if index = []
      then Cell b (SubSupCell m_baseCell m_postSubCell m_postSupCell m_preSubCell m_preSupCell
                     m_scriptCells)
      else let m_scriptCells = RemoveCell m_scriptCells m_postSupCell;
               m_postSupCell = index;
               m_scriptCells = m_scriptCells @ [get m_postSupCell]
           in Cell b (SubSupCell m_baseCell m_postSubCell m_postSupCell m_preSubCell
                        m_preSupCell m_scriptCells))"

fun SubSupCell_SetPostSub :: "Cell list \<Rightarrow> Cell \<Rightarrow> Cell" where
  "SubSupCell_SetPostSub index (Cell b (SubSupCell m_baseCell m_postSubCell m_postSupCell
       m_preSubCell m_preSupCell m_scriptCells)) =
     (if index = []
      then Cell b (SubSupCell m_baseCell m_postSubCell m_postSupCell m_preSubCell m_preSupCell
                     m_scriptCells)
      else let m_scriptCells = RemoveCell m_scriptCells m_postSubCell;
               m_postSubCell = index;
               m_scriptCells = m_scriptCells @ [get m_postSubCell]
           in Cell b (SubSupCell m_baseCell m_postSubCell m_postSupCell m_preSubCell
                        m_preSupCell m_scriptCells))"

fun SubSupCell_SetIndex :: "Cell list \<Rightarrow> Cell \<Rightarrow> Cell" where
  "SubSupCell_SetIndex index (Cell b (SubSupCell m_baseCell m_postSubCell m_postSupCell
       m_preSubCell m_preSupCell m_scriptCells)) =
     (if index = []
      then Cell b (SubSupCell m_baseCell m_postSubCell m_postSupCell m_preSubCell m_preSupCell
                     m_scriptCells)
      else let m_scriptCells = RemoveCell m_scriptCells m_postSubCell;
               m_postSubCell = index
           in Cell b (SubSupCell m_baseCell m_postSubCell m_postSupCell m_preSubCell
                        m_preSupCell m_scriptCells))"

fun SubSupCell_SetBase :: "Cell list \<Rightarrow> Cell \<Rightarrow> Cell" where
  "SubSupCell_SetBase base' (Cell b (SubSupCell m_baseCell m_postSubCell m_postSupCell
       m_preSubCell m_preSupCell m_scriptCells)) =
     (if base' = []
      then Cell b (SubSupCell m_baseCell m_postSubCell m_postSupCell m_preSubCell m_preSupCell
                     m_scriptCells)
      else Cell b (SubSupCell base' m_postSubCell m_postSupCell m_preSubCell m_preSupCell
                     m_scriptCells))"

fun SubSupCell_SetExponent :: "Cell list \<Rightarrow> Cell \<Rightarrow> Cell" where
  "SubSupCell_SetExponent expt (Cell b (SubSupCell m_baseCell m_postSubCell m_postSupCell
       m_preSubCell m_preSupCell m_scriptCells)) =
     (if expt = []
      then Cell b (SubSupCell m_baseCell m_postSubCell m_postSupCell m_preSubCell m_preSupCell
                     m_scriptCells)
      else let m_scriptCells = RemoveCell m_scriptCells m_postSupCell;
               m_postSupCell = expt
           in Cell b (SubSupCell m_baseCell m_postSubCell m_postSupCell m_preSubCell
                        m_preSupCell m_scriptCells))"



subsection \<open>The parse routines\<close>

text \<open>
  Every routine but \<^verbatim>\<open>ParseTag\<close> itself takes \<open>pt\<close>, the \<^verbatim>\<open>ParseTag\<close> it calls
  on the children of its node. A routine that dereferences a null pointer fails.
\<close>

type_synonym parse = "wxXmlNodePtr \<Rightarrow> bool \<Rightarrow> state \<Rightarrow> Cell list result"

definition deref :: "'n list \<Rightarrow> ('n \<Rightarrow> 'a result) \<Rightarrow> 'a result" where
  \<comment> \<open>\<^verbatim>\<open>p->\<close> on a pointer that may be null\<close>
  "deref p f = (case p of [] \<Rightarrow> Inl NullDereference | n # _ \<Rightarrow> f n)"

definition HandleNullPointer_ParseTag ::
    "externals \<Rightarrow> parse \<Rightarrow> wxXmlNodePtr \<Rightarrow> bool \<Rightarrow> state \<Rightarrow> Cell list result" where
  \<comment> \<open>the expression \<^verbatim>\<open>HandleNullPointer(ParseTag(child, all))\<close>\<close>
  "HandleNullPointer_ParseTag ext pt child all s =
     and_then (pt child all s) (\<lambda>cell s. Inr (HandleNullPointer ext cell s))"

definition new_object :: "Cell Kind \<Rightarrow> state \<Rightarrow> Cell \<times> state" where
  \<comment> \<open>Modelled from the spec: \<^verbatim>\<open>MakeOwned\<close> of a class declared outside src/ allocates the
      cell; the children its constructor installs are those the routine sets next.\<close>
  "new_object k s = (let (a, s) = alloc s in (Cell (new_Cell a) k, s))"

definition ParseHiddenOperatorTag :: "wxXmlNodePtr \<Rightarrow> state \<Rightarrow> Cell list result" where
  "ParseHiddenOperatorTag node s =
     deref node (\<lambda>n.
       let (retval, s) = ParseText (GetChildren n) TS_DEFAULT s;
           retval = on_head (\<lambda>c. Cell ((base c)\<lparr> m_isHidableMultSign := True \<rparr>) (kind c)) retval
       in Inr (retval, s))"

definition ParseTagContents :: "parse \<Rightarrow> wxXmlNodePtr \<Rightarrow> state \<Rightarrow> Cell list result" where
  "ParseTagContents pt node s =
     (case node of
        n # _ \<Rightarrow> if GetChildren n \<noteq> [] then pt (GetChildren n) True s else Inr ([], s)
      | [] \<Rightarrow> Inr ([], s))"

definition ParseHighlightTag :: "parse \<Rightarrow> wxXmlNodePtr \<Rightarrow> state \<Rightarrow> Cell list result" where
  "ParseHighlightTag pt node s =
     deref node (\<lambda>n.
       let highlight = m_highlight s;
           s = s\<lparr> m_highlight := True \<rparr>
       in and_then (pt (GetChildren n) True s) (\<lambda>cell s.
            Inr (cell, s\<lparr> m_highlight := highlight \<rparr>)))"

definition ParseMiscTextTag :: "wxXmlNodePtr \<Rightarrow> state \<Rightarrow> Cell list result" where
  "ParseMiscTextTag node s =
     deref node (\<lambda>n.
       let style = TS_DEFAULT;
           style = (if GetAttribute n (wxT ''type'') wxEmptyString = wxT ''error''
                    then TS_ERROR else style);
           style = (if GetAttribute n (wxT ''type'') wxEmptyString = wxT ''warning''
                    then TS_WARNING else style)
       in Inr (ParseText (GetChildren n) style s))"

definition ParseSlideshowTag :: "externals \<Rightarrow> wxXmlNodePtr \<Rightarrow> state \<Rightarrow> Cell list result" where
  "ParseSlideshowTag ext node s =
     deref node (\<lambda>n.
       let del = (GetAttribute n (wxT ''del'') (wxT ''false'') = wxT ''true'');
           gnuplotSources = GetAttribute n (wxT ''gnuplotSources'') wxEmptyString;
           gnuplotData = GetAttribute n (wxT ''gnuplotData'') wxEmptyString;
           (a, s) = alloc s
       in deref (GetChildren n) (\<lambda>child.
            let str = GetContent child;
                fr = (case GetAttribute_ptr n (wxT ''fr'') of
                        Some framerate \<Rightarrow> ToLong ext framerate | None \<Rightarrow> None);
                frame = (case GetAttribute_ptr n (wxT ''frame'') of
                           Some framerate \<Rightarrow> ToLong ext framerate | None \<Rightarrow> None);
                running = (GetAttribute n (wxT ''running'') (wxT ''true'') \<noteq> wxT ''false'');
                images = filter (\<lambda>imageFile. imageFile \<noteq> []) (tokens_RET_EMPTY 59 str);
                numImgs = length images;
                sources = take numImgs (zip (tokens_RET_EMPTY 59 gnuplotSources)
                                            (tokens_RET_EMPTY 59 gnuplotData))
            in Inr ([Cell (new_Cell a) (SlideShow
                      \<lparr> slide_fromFileSystem = m_fileSystem s, slide_images = images,
                        slide_remove = del, slide_frameRate = fr, slide_displayedIndex = frame,
                        slide_animationRunning = running,
                        slide_gnuplotSources = zip [0 ..< length sources] sources \<rparr>)], s)))"

definition ParseImageTag :: "externals \<Rightarrow> wxXmlNodePtr \<Rightarrow> state \<Rightarrow> Cell list result" where
  "ParseImageTag ext node s =
     deref node (\<lambda>n. deref (GetChildren n) (\<lambda>child.
       let filename = GetContent child;
           no_del = (GetAttribute n (wxT ''del'') (wxT ''yes'') = wxT ''no'');
           filename = (if \<not> m_fileSystem s \<and> no_del
                          \<and> \<not> wxFileExists ext filename
                          \<and> wxFileExists ext (GetWorkingDirectory ext @ wxT ''/'' @ filename)
                       then GetWorkingDirectory ext @ wxT ''/'' @ filename else filename);
           (a, s) = alloc s
       in if \<not> m_fileSystem s \<and> \<not> GetImageCount ext filename < 2
          then Inr ([Cell (new_Cell a) (SlideShow
                      \<lparr> slide_fromFileSystem = False, slide_images = [filename],
                        slide_remove = (\<not> no_del), slide_frameRate = None,
                        slide_displayedIndex = None, slide_animationRunning = True,
                        slide_gnuplotSources = [] \<rparr>)], s)
          else
            let gnuplotSource = GetAttribute n (wxT ''gnuplotsource'') wxEmptyString;
                gnuplotData = GetAttribute n (wxT ''gnuplotdata'') wxEmptyString;
                sizeString = GetAttribute n (wxT ''maxWidth'') (wxT ''-1'');
                maxWidth = (if sizeString \<noteq> wxT ''-1'' then ToDouble ext sizeString else None);
                sizeString = GetAttribute n (wxT ''maxHeight'') (wxT ''-1'');
                maxHeight = (if sizeString \<noteq> wxT ''-1'' then ToDouble ext sizeString else None)
            in Inr ([Cell (new_Cell a) (ImgCell
                      \<lparr> img_filename = filename, img_fromFileSystem = m_fileSystem s,
                        img_remove = (\<not> m_fileSystem s \<and> \<not> no_del),
                        img_gnuplotSource = (if gnuplotSource \<noteq> [] then gnuplotSource else []),
                        img_gnuplotData = (if gnuplotSource \<noteq> [] then gnuplotData else []),
                        img_drawRectangle =
                          (GetAttribute n (wxT ''rect'') (wxT ''true'') \<noteq> wxT ''false''),
                        img_maxWidth = maxWidth, img_maxHeight = maxHeight \<rparr>)], s)))"

definition substr :: "wxString \<Rightarrow> nat \<Rightarrow> int \<Rightarrow> error + wxString" where
  \<comment> \<open>\<^verbatim>\<open>substr(pos, n)\<close> fails for a start beyond the end of the string\<close>
  "substr str pos n =
     (if pos > length str then Inl OutOfRange else Inr (take (nat n) (drop pos str)))"

definition SetUserDefinedLabel :: "wxString \<Rightarrow> Cell \<Rightarrow> Cell" where
  \<comment> \<open>Modelled from the spec: the setter of a text cell, declared outside src/, stores the
      user-defined label.\<close>
  "SetUserDefinedLabel lbl c =
     (case kind c of TextCell text _ \<Rightarrow> Cell (base c) (TextCell text lbl) | _ \<Rightarrow> c)"

definition ParseOutputLabelTag :: "wxXmlNodePtr \<Rightarrow> state \<Rightarrow> Cell list result" where
  "ParseOutputLabelTag node s =
     deref node (\<lambda>n.
       let user_lbl = GetAttribute n (wxT ''userdefinedlabel'') (m_userDefinedLabel s);
           userdefined = GetAttribute n (wxT ''userdefined'') (wxT ''no'')
       in and_then
            (if userdefined \<noteq> wxT ''yes''
             then (let (cell, s) = ParseText (GetChildren n) TS_LABEL s
                   in Inr ((cell, user_lbl), s))
             else (let (cell, s) = ParseText (GetChildren n) TS_USERLABEL s
                   in if user_lbl = []
                      then (let user_lbl = GetValue cell
                            in case substr user_lbl 1 (to_size_t (int (length user_lbl) - 2)) of
                                 Inl e \<Rightarrow> Inl e
                               | Inr user_lbl \<Rightarrow> Inr ((cell, user_lbl), s))
                      else Inr ((cell, user_lbl), s)))
            (\<lambda>(cell, user_lbl) s.
               Inr (on_head (ForceBreakLine True) (on_head (SetUserDefinedLabel user_lbl) cell), s)))"

definition ParseMthTag :: "parse \<Rightarrow> wxXmlNodePtr \<Rightarrow> state \<Rightarrow> Cell list result" where
  "ParseMthTag pt node s =
     deref node (\<lambda>n.
       and_then (pt (GetChildren n) True s) (\<lambda>cell s.
         if cell \<noteq> [] then Inr (on_head (ForceBreakLine True) cell, s)
         else (let (a, s) = alloc s in Inr ([new_TextCell a (wxT '' '') TS_DEFAULT], s))))"


text \<open>
  The loops over the siblings of a node advance with \<^verbatim>\<open>GetNextTag\<close>, which leaves a
  shorter list of siblings: they end.
\<close>

lemma length_SkipWhitespaceNode: "length (SkipWhitespaceNode ext node) \<le> length node"
  by (simp add: SkipWhitespaceNode_def GetNext_def split: list.split)

lemma length_GetNextTag [termination_simp]:
  "length (GetNextTag ext (n # rest)) < Suc (length rest)"
  using length_SkipWhitespaceNode [of ext rest] by (simp add: GetNextTag_def GetNext_def)

lemma length_GetNextTag_Skip [termination_simp]:
  "length (GetNextTag ext (SkipWhitespaceNode ext (n # rest))) < Suc (length rest)"
proof (cases "SkipWhitespaceNode ext (n # rest)")
  case Nil
  then show ?thesis by (simp add: GetNextTag_def SkipWhitespaceNode_def)
next
  case (Cons m rest')
  have "length (m # rest') \<le> length (n # rest)"
    using length_SkipWhitespaceNode [of ext "n # rest"] Cons by simp
  moreover have "length (GetNextTag ext (m # rest')) < Suc (length rest')"
    by (rule length_GetNextTag)
  ultimately show ?thesis using Cons by simp
qed

fun ParseEditorTag_lines :: "wxXmlNodePtr \<Rightarrow> wxString \<Rightarrow> wxString" where
  "ParseEditorTag_lines [] text = text"
| "ParseEditorTag_lines (line # rest) text =
     (let text = (if GetName line = wxT ''line''
                  then (if text \<noteq> [] then text @ [10] else text) @ GetNodeContent line
                  else text)
      in ParseEditorTag_lines rest text)"

definition ParseEditorTag :: "wxXmlNodePtr \<Rightarrow> state \<Rightarrow> Cell list result" where
  "ParseEditorTag node s =
     deref node (\<lambda>n.
       let (editor, s) = new_object (EditorCell wxEmptyString) s;
           type = GetAttribute n (wxT ''type'') (wxT ''input'');
           editor =
             (if type = wxT ''input'' then SetType MC_TYPE_INPUT editor
              else if type = wxT ''text'' then SetType MC_TYPE_TEXT editor
              else if type = wxT ''title'' then SetType MC_TYPE_TITLE editor
              else if type = wxT ''section'' then SetType MC_TYPE_SECTION editor
              else if type = wxT ''subsection'' then SetType MC_TYPE_SUBSECTION editor
              else if type = wxT ''subsubsection'' then SetType MC_TYPE_SUBSUBSECTION editor
              else if type = wxT ''heading5'' then SetType MC_TYPE_HEADING5 editor
              else if type = wxT ''heading6'' then SetType MC_TYPE_HEADING6 editor
              else editor);
           text = ParseEditorTag_lines (GetChildren n) wxEmptyString
       in Inr ([SetValue text editor], s))"

text \<open>
  Modelled from the spec: the group cell is declared outside src/. Its setters store what
  they are given, \<^verbatim>\<open>AppendOutput\<close> appends to the output chain and \<^verbatim>\<open>HideTree\<close>
  takes the folded cells.
\<close>

definition new_GroupCell :: "GroupType \<Rightarrow> state \<Rightarrow> Cell \<times> state" where
  "new_GroupCell t s =
     new_object (GroupCell \<lparr> m_groupType = t, m_editableContent = wxEmptyString, m_hide = False,
                   m_autoAnswer = False, m_knownAnswers = [], m_suppressTooltipMarker = False,
                   m_group = None \<rparr> [] []) s"

definition on_GroupCell :: "(GroupCell_data \<Rightarrow> GroupCell_data) \<Rightarrow> Cell \<Rightarrow> Cell" where
  "on_GroupCell f c =
     (case kind c of GroupCell d out tree \<Rightarrow> Cell (base c) (GroupCell (f d) out tree) | _ \<Rightarrow> c)"

definition SetEditableContent :: "wxString \<Rightarrow> Cell \<Rightarrow> Cell" where
  "SetEditableContent text = on_GroupCell (\<lambda>d. d\<lparr> m_editableContent := text \<rparr>)"

definition Hide :: "bool \<Rightarrow> Cell \<Rightarrow> Cell" where
  "Hide hide = on_GroupCell (\<lambda>d. d\<lparr> m_hide := hide \<rparr>)"

definition SetGroup :: "CellPtr \<Rightarrow> Cell \<Rightarrow> Cell" where
  "SetGroup g = on_GroupCell (\<lambda>d. d\<lparr> m_group := g \<rparr>)"

definition AutoAnswer :: "bool \<Rightarrow> Cell \<Rightarrow> Cell" where
  "AutoAnswer a = on_GroupCell (\<lambda>d. d\<lparr> m_autoAnswer := a \<rparr>)"

definition SetAnswer :: "wxString \<Rightarrow> wxString \<Rightarrow> Cell \<Rightarrow> Cell" where
  "SetAnswer question answer =
     on_GroupCell (\<lambda>d. d\<lparr> m_knownAnswers := m_knownAnswers d @ [(question, answer)] \<rparr>)"

definition SetSuppressTooltipMarker :: "bool \<Rightarrow> Cell \<Rightarrow> Cell" where
  "SetSuppressTooltipMarker suppress = on_GroupCell (\<lambda>d. d\<lparr> m_suppressTooltipMarker := suppress \<rparr>)"

definition AppendOutput :: "Cell list \<Rightarrow> Cell \<Rightarrow> Cell" where
  "AppendOutput cell c =
     (case kind c of
        GroupCell d out tree \<Rightarrow> Cell (base c) (GroupCell d (AppendCell out cell) tree)
      | _ \<Rightarrow> c)"

definition HideTree :: "Cell list \<Rightarrow> Cell \<Rightarrow> Cell" where
  "HideTree tree c =
     (case kind c of GroupCell d out _ \<Rightarrow> Cell (base c) (GroupCell d out tree) | _ \<Rightarrow> c)"

definition ParseCommonGroupCellAttrs :: "wxXmlNodePtr \<Rightarrow> Cell \<Rightarrow> Cell" where
  "ParseCommonGroupCellAttrs node group' =
     (case node of
        [] \<Rightarrow> group'
      | n # _ \<Rightarrow> if GetAttribute n (wxT ''hideToolTip'') wxEmptyString = wxT ''true''
                 then SetSuppressTooltipMarker True group' else group')"

definition GroupCellFromSubsectionTag :: "wxXmlNodePtr \<Rightarrow> state \<Rightarrow> Cell list result" where
  "GroupCellFromSubsectionTag node s =
     deref node (\<lambda>n.
       let sectioning_level = GetAttribute n (wxT ''sectioning_level'') (wxT ''0'');
           (group', s) =
             (if sectioning_level = wxT ''0'' \<or> sectioning_level = wxT ''3''
              then (let (g, s) = new_GroupCell GC_TYPE_SUBSECTION s in ([g], s)) else ([], s));
           (group', s) =
             (if sectioning_level = wxT ''4''
              then (let (g, s) = new_GroupCell GC_TYPE_SUBSUBSECTION s in ([g], s))
              else (group', s));
           (group', s) =
             (if sectioning_level = wxT ''5''
              then (let (g, s) = new_GroupCell GC_TYPE_HEADING5 s in ([g], s)) else (group', s));
           (group', s) =
             (if group' = []
              then (let (g, s) = new_GroupCell GC_TYPE_HEADING6 s in ([g], s)) else (group', s))
       in Inr (on_head (ParseCommonGroupCellAttrs node) group', s))"

definition GroupCellFromImageTag :: "wxXmlNodePtr \<Rightarrow> state \<Rightarrow> Cell list result" where
  "GroupCellFromImageTag node s =
     (let (group', s) = new_GroupCell GC_TYPE_IMAGE s
      in Inr ([ParseCommonGroupCellAttrs node group'], s))"

text \<open>
  The loop over the attributes \<^verbatim>\<open>answer1\<close>, \<^verbatim>\<open>answer2\<close>, ... finds another attribute
  in every round, so it makes no more rounds than the node has attributes: \<open>bound\<close> counts
  the rounds that are left.
\<close>

fun GroupCellFromCodeTag_answers :: "nat \<Rightarrow> wxXmlNode \<Rightarrow> nat \<Rightarrow> Cell \<Rightarrow> error + Cell" where
  "GroupCellFromCodeTag_answers 0 n i group' = Inl OutOfFuel"
| "GroupCellFromCodeTag_answers (Suc bound) n i group' =
     (case GetAttribute_ptr n (wxT ''answer'' @ decimal i) of
        None \<Rightarrow> Inr group'
      | Some answer \<Rightarrow>
          GroupCellFromCodeTag_answers bound n (i + 1)
            (case GetAttribute_ptr n (wxT ''question'' @ decimal i) of
               Some question \<Rightarrow> SetAnswer question answer group'
             | None \<Rightarrow> SetAnswer (wxT ''Question #'' @ decimal i) answer group'))"

definition GroupCellFromCodeTag :: "wxXmlNodePtr \<Rightarrow> state \<Rightarrow> Cell list result" where
  "GroupCellFromCodeTag node s =
     deref node (\<lambda>n.
       let (group', s) = new_GroupCell GC_TYPE_CODE s;
           isAutoAnswer = GetAttribute n (wxT ''auto_answer'') (wxT ''no'');
           group' = (if isAutoAnswer = wxT ''yes'' then AutoAnswer True group' else group')
       in case GroupCellFromCodeTag_answers (Suc (length (GetAttributes n))) n 1 group' of
            Inl e \<Rightarrow> Inl e
          | Inr group' \<Rightarrow> Inr ([ParseCommonGroupCellAttrs node group'], s))"

definition m_groupTags ::
    "externals \<Rightarrow> (wxString \<times> (wxXmlNodePtr \<Rightarrow> state \<Rightarrow> Cell list result)) list" where
  "m_groupTags ext =
     [(wxT ''code'', GroupCellFromCodeTag),
      (wxT ''image'', GroupCellFromImageTag),
      (wxT ''pagebreak'', GroupCellFromPagebreakTag ext),
      (wxT ''text'', GroupCellFromTextTag ext),
      (wxT ''title'', GroupCellFromTitleTag ext),
      (wxT ''section'', GroupCellFromSectionTag ext),
      (wxT ''subsection'', GroupCellFromSubsectionTag),
      (wxT ''subsubsection'', GroupCellFromSubsubsectionTag ext),
      (wxT ''heading5'', GroupCellHeading5Tag ext),
      (wxT ''heading6'', GroupCellHeading6Tag ext)]"

text \<open>
  The loop of \<^verbatim>\<open>ParseCellTag\<close> over the cells of a \<^verbatim>\<open>fold\<close> element. Nothing in the
  loop says that it ends, so every round uses up one unit of \<open>fuel\<close>. \<open>tree\<close> is the
  chain built so far and \<open>last'\<close> the position in it that \<^verbatim>\<open>last\<close> points to.
\<close>

fun ParseCellTag_fold ::
    "externals \<Rightarrow> parse \<Rightarrow> nat \<Rightarrow> wxXmlNodePtr \<Rightarrow> Cell list \<Rightarrow> nat option \<Rightarrow> state
     \<Rightarrow> Cell list result" where
  "ParseCellTag_fold ext pt 0 xmlcells tree last' s = Inl OutOfFuel"
| "ParseCellTag_fold ext pt (Suc fuel) xmlcells tree last' s =
     (if xmlcells = [] then Inr (tree, s)
      else
        and_then (pt xmlcells False s) (\<lambda>ownedCell s.
          if ownedCell = [] then ParseCellTag_fold ext pt fuel xmlcells tree last' s
          else
            let cell = get ownedCell;
                (tree, ownedCell) = (if tree = [] then (ownedCell, []) else (tree, ownedCell));
                (tree, last') =
                  (case last' of
                     None \<Rightarrow> (tree, Some 0)
                   | Some i \<Rightarrow>
                       (take i tree
                        @ (case drop i tree of
                             [] \<Rightarrow> [] | c # _ \<Rightarrow> [SetNextToDraw (cell_ops ext) cell c])
                        @ ownedCell, Some (Suc i)));
                xmlcells = GetNextTag ext xmlcells
            in ParseCellTag_fold ext pt fuel xmlcells tree last' s))"

fun ParseCellTag_children ::
    "externals \<Rightarrow> parse \<Rightarrow> nat \<Rightarrow> wxXmlNodePtr \<Rightarrow> Cell \<Rightarrow> state \<Rightarrow> Cell result" where
  "ParseCellTag_children ext pt fuel [] group' s = Inr (group', s)"
| "ParseCellTag_children ext pt fuel (child # rest) group' s =
     and_then
       (if GetName child = wxT ''editor''
        then and_then (ParseEditorTag (child # rest) s) (\<lambda>ed s.
               Inr (if ed \<noteq> [] then SetEditableContent (GetValue ed) group' else group', s))
        else if GetName child = wxT ''fold''
        then and_then
               (ParseCellTag_fold ext pt fuel (SkipWhitespaceNode ext (GetChildren child))
                  [] None s)
               (\<lambda>tree s. Inr (if tree \<noteq> [] then HideTree tree group' else group', s))
        else if GetName child = wxT ''input''
        then and_then (pt (GetChildren child) True s) (\<lambda>editor s.
               let (editor, s) =
                     (if editor = []
                      then (let (e, s) = new_object (EditorCell (gettext ext (wxT ''Bug: Missing contents''))) s
                            in ([e], s))
                      else (editor, s))
               in Inr (if editor \<noteq> [] then SetEditableContent (GetValue editor) group'
                       else group', s))
        else and_then (HandleNullPointer_ParseTag ext pt (child # rest) True s) (\<lambda>out s.
               Inr (AppendOutput out group', s)))
       (\<lambda>group' s. ParseCellTag_children ext pt fuel (GetNextTag ext (child # rest)) group' s)"

definition ParseCellTag ::
    "externals \<Rightarrow> parse \<Rightarrow> nat \<Rightarrow> wxXmlNodePtr \<Rightarrow> state \<Rightarrow> Cell list result" where
  "ParseCellTag ext pt fuel node s =
     deref node (\<lambda>n.
       let hide = (GetAttribute n (wxT ''hide'') (wxT ''false'') = wxT ''true'');
           type = GetAttribute n (wxT ''type'') (wxT ''text'')
       in case map_of (m_groupTags ext) type of
            None \<Rightarrow> Inr ([], s)
          | Some function \<Rightarrow>
              and_then (function node s) (\<lambda>group' s.
                deref group' (\<lambda>group'.
                  and_then
                    (ParseCellTag_children ext pt fuel
                       (SkipWhitespaceNode ext (GetChildren n)) group' s)
                    (\<lambda>group' s.
                       let group' = SetGroup (get [group']) group';
                           group' = Hide hide group'
                       in Inr ([group'], s)))))"


definition with_heap :: "(nat \<Rightarrow> 'a \<times> nat) \<Rightarrow> state \<Rightarrow> 'a \<times> state" where
  \<comment> \<open>a constructor or setter of a cell class, run on the parser's heap\<close>
  "with_heap f s = (let (x, h) = f (heap_top s) in (x, s\<lparr> heap_top := h \<rparr>))"

definition ParseFracTag :: "externals \<Rightarrow> parse \<Rightarrow> wxXmlNodePtr \<Rightarrow> state \<Rightarrow> Cell list result" where
  "ParseFracTag ext pt node s =
     deref node (\<lambda>n.
       let (a, s) = alloc s;
           fracStyle = m_FracStyle s;
           highlight = m_highlight s;
           child = SkipWhitespaceNode ext (GetChildren n)
       in and_then (HandleNullPointer_ParseTag ext pt child False s) (\<lambda>num s.
            let child = GetNextTag ext child
            in and_then (HandleNullPointer_ParseTag ext pt child False s) (\<lambda>denom s.
                 let fracStyle = (if GetAttribute n (wxT ''line'') wxEmptyString = wxT ''no''
                                  then FC_CHOOSE else fracStyle);
                     fracStyle = (if GetAttribute n (wxT ''diffstyle'') wxEmptyString = wxT ''yes''
                                  then FC_DIFF else fracStyle);
                     frac = Cell (new_Cell a) (FracCell fracStyle num denom);
                     frac = SetHighlight highlight frac;
                     frac = SetType (m_ParserStyle s) frac;
                     frac = SetStyle TS_VARIABLE frac
                 in Inr (ParseCommonAttrs node [frac], s))))"

definition ParseDiffTag :: "externals \<Rightarrow> parse \<Rightarrow> wxXmlNodePtr \<Rightarrow> state \<Rightarrow> Cell list result" where
  "ParseDiffTag ext pt node s =
     deref node (\<lambda>n.
       let (a, s) = alloc s;
           child = SkipWhitespaceNode ext (GetChildren n)
       in if child \<noteq> []
          then (let fc = m_FracStyle s;
                    s = s\<lparr> m_FracStyle := FC_DIFF \<rparr>
                in and_then (HandleNullPointer_ParseTag ext pt child False s) (\<lambda>diff s.
                     let s = s\<lparr> m_FracStyle := fc \<rparr>;
                         child = GetNextTag ext child
                     in and_then (HandleNullPointer_ParseTag ext pt child True s) (\<lambda>base' s.
                          let cell = Cell (new_Cell a) (DiffCell base' diff);
                              cell = SetType (m_ParserStyle s) cell;
                              cell = SetStyle TS_VARIABLE cell
                          in Inr (ParseCommonAttrs node [cell], s))))
          else Inr (ParseCommonAttrs node [Cell (new_Cell a) (DiffCell [] [])], s))"

definition ParseSupTag :: "externals \<Rightarrow> parse \<Rightarrow> wxXmlNodePtr \<Rightarrow> state \<Rightarrow> Cell list result" where
  "ParseSupTag ext pt node s =
     deref node (\<lambda>n.
       let (a, s) = alloc s;
           isMatrix = (GetAttributes n \<noteq> []);
           child = SkipWhitespaceNode ext (GetChildren n)
       in and_then (HandleNullPointer_ParseTag ext pt child False s) (\<lambda>base' s.
            let baseString = ToString (cell_ops ext) base';
                child = GetNextTag ext child
            in and_then (HandleNullPointer_ParseTag ext pt child False s) (\<lambda>power s.
                 let power = on_head SetExponentFlag power;
                     powerString = ToString (cell_ops ext) power;
                     expt = Cell (new_Cell a) (ExptCell isMatrix base' power);
                     expt = SetType (m_ParserStyle s) expt;
                     expt = SetStyle TS_VARIABLE expt;
                     expt = ParseCommonAttrs node [expt];
                     expt = (if GetAttribute n (wxT ''mat'') (wxT ''false'') = wxT ''true''
                             then on_head (SetAltCopyText (baseString @ wxT ''^^'' @ powerString)) expt
                             else expt)
                 in Inr (expt, s))))"

fun ParseSubSupTag_loop ::
    "externals \<Rightarrow> parse \<Rightarrow> wxXmlNodePtr \<Rightarrow> Cell \<Rightarrow> state \<Rightarrow> Cell result" where
  "ParseSubSupTag_loop ext pt [] subsup s = Inr (subsup, s)"
| "ParseSubSupTag_loop ext pt (c # rest) subsup s =
     (let pos = GetAttribute c (wxT ''pos'') wxEmptyString
      in and_then (HandleNullPointer_ParseTag ext pt (c # rest) False s) (\<lambda>cell s.
           let subsup =
                 (if pos = wxT ''presub'' then SubSupCell_SetPreSub cell subsup
                  else if pos = wxT ''presup'' then SubSupCell_SetPreSup cell subsup
                  else if pos = wxT ''postsup'' then SubSupCell_SetPostSup cell subsup
                  else if pos = wxT ''postsub'' then SubSupCell_SetPostSub cell subsup
                  else subsup)
           in ParseSubSupTag_loop ext pt
                (GetNextTag ext (SkipWhitespaceNode ext (c # rest))) subsup s))"

definition ParseSubSupTag :: "externals \<Rightarrow> parse \<Rightarrow> wxXmlNodePtr \<Rightarrow> state \<Rightarrow> Cell list result" where
  "ParseSubSupTag ext pt node s =
     deref node (\<lambda>n.
       let (subsup, s) = with_heap new_SubSupCell s;
           child = SkipWhitespaceNode ext (GetChildren n)
       in and_then (HandleNullPointer_ParseTag ext pt child False s) (\<lambda>base' s.
            let subsup = SubSupCell_SetBase base' subsup;
                child = GetNextTag ext child
            in if (case child of [] \<Rightarrow> False
                   | c # _ \<Rightarrow> GetAttribute c (wxT ''pos'') wxEmptyString \<noteq> [])
               then and_then (ParseSubSupTag_loop ext pt child subsup s) (\<lambda>subsup s.
                      Inr ([subsup], s))
               else
                 and_then (HandleNullPointer_ParseTag ext pt child False s) (\<lambda>index s.
                   let index = on_head SetExponentFlag index;
                       subsup = SubSupCell_SetIndex index subsup;
                       child = GetNextTag ext child
                   in and_then (HandleNullPointer_ParseTag ext pt child False s) (\<lambda>power s.
                        let power = on_head SetExponentFlag power;
                            subsup = SubSupCell_SetExponent power subsup;
                            subsup = SetType (m_ParserStyle s) subsup;
                            subsup = SetStyle TS_VARIABLE subsup
                        in Inr (ParseCommonAttrs node [subsup], s)))))"

fun ParseMmultiscriptsTag_loop ::
    "externals \<Rightarrow> parse \<Rightarrow> wxXmlNodePtr \<Rightarrow> bool \<Rightarrow> bool \<Rightarrow> Cell \<Rightarrow> state \<Rightarrow> Cell result" where
  "ParseMmultiscriptsTag_loop ext pt [] pre subscript subsup s = Inr (subsup, s)"
| "ParseMmultiscriptsTag_loop ext pt (c # rest) pre subscript subsup s =
     (if GetName c = wxT ''mprescripts''
      then ParseMmultiscriptsTag_loop ext pt (GetNextTag ext (c # rest)) True True subsup s
      else
        and_then
          (if GetName c \<noteq> wxT ''none''
           then and_then (pt (c # rest) False s) (\<lambda>cell s.
                  let subsup = (if pre \<and> subscript then SubSupCell_SetPreSub cell subsup
                                else subsup);
                      subsup = (if pre \<and> \<not> subscript then SubSupCell_SetPreSup cell subsup
                                else subsup);
                      subsup = (if \<not> pre \<and> subscript then SubSupCell_SetPostSub cell subsup
                                else subsup);
                      subsup = (if \<not> pre \<and> \<not> subscript then SubSupCell_SetPostSup cell subsup
                                else subsup)
                  in Inr (subsup, s))
           else Inr (subsup, s))
          (\<lambda>subsup s.
             ParseMmultiscriptsTag_loop ext pt
               (GetNextTag ext (SkipWhitespaceNode ext (c # rest))) pre (\<not> subscript) subsup s))"

definition ParseMmultiscriptsTag ::
    "externals \<Rightarrow> parse \<Rightarrow> wxXmlNodePtr \<Rightarrow> state \<Rightarrow> Cell list result" where
  "ParseMmultiscriptsTag ext pt node s =
     deref node (\<lambda>n.
       let (subsup, s) = with_heap new_SubSupCell s;
           pre = False;
           subscript = True;
           child = SkipWhitespaceNode ext (GetChildren n)
       in and_then (HandleNullPointer_ParseTag ext pt child False s) (\<lambda>base' s.
            let subsup = SubSupCell_SetBase base' subsup;
                child = GetNextTag ext child
            in and_then (ParseMmultiscriptsTag_loop ext pt child pre subscript subsup s)
                 (\<lambda>subsup s. Inr ([subsup], s))))"

definition ParseSubTag :: "externals \<Rightarrow> parse \<Rightarrow> wxXmlNodePtr \<Rightarrow> state \<Rightarrow> Cell list result" where
  "ParseSubTag ext pt node s =
     deref node (\<lambda>n.
       let (a, s) = alloc s;
           child = SkipWhitespaceNode ext (GetChildren n)
       in and_then (HandleNullPointer_ParseTag ext pt child False s) (\<lambda>base' s.
            let child = GetNextTag ext child
            in and_then (HandleNullPointer_ParseTag ext pt child False s) (\<lambda>index s.
                 let index = on_head SetExponentFlag index;
                     sub = Cell (new_Cell a) (SubCell base' index);
                     sub = SetType (m_ParserStyle s) sub;
                     sub = SetStyle TS_VARIABLE sub
                 in Inr (ParseCommonAttrs node [sub], s))))"

definition ParseAtTag :: "externals \<Rightarrow> parse \<Rightarrow> wxXmlNodePtr \<Rightarrow> state \<Rightarrow> Cell list result" where
  "ParseAtTag ext pt node s =
     deref node (\<lambda>n.
       let (a, s) = alloc s;
           child = SkipWhitespaceNode ext (GetChildren n)
       in and_then (HandleNullPointer_ParseTag ext pt child False s) (\<lambda>base' s.
            let highlight = m_highlight s;
                child = GetNextTag ext child
            in and_then (HandleNullPointer_ParseTag ext pt child False s) (\<lambda>index s.
                 let at' = Cell (new_Cell a) (AtCell base' index);
                     at' = SetHighlight highlight at';
                     at' = SetType (m_ParserStyle s) at';
                     at' = SetStyle TS_VARIABLE at'
                 in Inr (ParseCommonAttrs node [at'], s))))"

definition ParseFunTag :: "externals \<Rightarrow> parse \<Rightarrow> wxXmlNodePtr \<Rightarrow> state \<Rightarrow> Cell list result" where
  "ParseFunTag ext pt node s =
     deref node (\<lambda>n.
       let (fun', s) = with_heap (new_FunCell True) s;
           child = SkipWhitespaceNode ext (GetChildren n)
       in and_then (HandleNullPointer_ParseTag ext pt child False s) (\<lambda>name s.
            let (fun', s) = with_heap (FunCell_SetName name fun') s;
                child = GetNextTag ext child;
                fun' = SetType (m_ParserStyle s) fun';
                fun' = SetStyle TS_FUNCTION fun'
            in and_then (HandleNullPointer_ParseTag ext pt child False s) (\<lambda>arg s.
                 let (fun', s) = with_heap (FunCell_SetArg arg fun') s;
                     fun' = ParseCommonAttrs node [fun'];
                     fun' = (if (case fun' of [] \<Rightarrow> False
                                 | f # _ \<Rightarrow> Contains (FunCell_ToString (cell_ops ext) f) (wxT '')(''))
                             then on_head (SetToolTip (gettext ext
                               (wxT ''If this isn't a function returning a lambda() expression,''
                                @ wxT '' a multiplication sign (*) between closing and opening ''
                                @ wxT ''parenthesis is missing here.''))) fun'
                             else fun')
                 in Inr (fun', s))))"

definition to_wchar :: "int \<Rightarrow> wxChar" where
  \<comment> \<open>the character that \<^verbatim>\<open>wxString::Format(wxT("%c"), code)\<close> prints\<close>
  "to_wchar code = nat (code mod 2 ^ 32)"

definition ParseCharCode :: "externals \<Rightarrow> wxXmlNodePtr \<Rightarrow> state \<Rightarrow> Cell list result" where
  "ParseCharCode ext node s =
     (let (a, s) = alloc s;
          cell = new_TextCell a wxEmptyString TS_DEFAULT;
          str = (case node of [] \<Rightarrow> wxEmptyString | n # _ \<Rightarrow> GetContent n);
          cell = (if node \<noteq> [] \<and> str \<noteq> []
                  then (let str = (case ToLong ext str of
                                     Some code \<Rightarrow> [to_wchar code] | None \<Rightarrow> str);
                            cell = SetValue str cell;
                            cell = SetType (m_ParserStyle s) cell;
                            cell = SetStyle TS_DEFAULT cell
                        in SetHighlight (m_highlight s) cell)
                  else cell)
      in Inr (ParseCommonAttrs node [cell], s))"

definition ParseSqrtTag :: "externals \<Rightarrow> parse \<Rightarrow> wxXmlNodePtr \<Rightarrow> state \<Rightarrow> Cell list result" where
  "ParseSqrtTag ext pt node s =
     deref node (\<lambda>n.
       let child = SkipWhitespaceNode ext (GetChildren n);
           (a, s) = alloc s
       in and_then (HandleNullPointer_ParseTag ext pt child True s) (\<lambda>inner s.
            let cell = Cell (new_Cell a) (SqrtCell inner);
                cell = SetType (m_ParserStyle s) cell;
                cell = SetStyle TS_VARIABLE cell;
                cell = SetHighlight (m_highlight s) cell
            in Inr (ParseCommonAttrs node [cell], s)))"

definition ParseAbsTag :: "externals \<Rightarrow> parse \<Rightarrow> wxXmlNodePtr \<Rightarrow> state \<Rightarrow> Cell list result" where
  "ParseAbsTag ext pt node s =
     deref node (\<lambda>n.
       let child = SkipWhitespaceNode ext (GetChildren n);
           (a, s) = alloc s
       in and_then (HandleNullPointer_ParseTag ext pt child True s) (\<lambda>inner s.
            let cell = Cell (new_Cell a) (AbsCell inner);
                cell = SetType (m_ParserStyle s) cell;
                cell = SetStyle TS_VARIABLE cell;
                cell = SetHighlight (m_highlight s) cell
            in Inr (ParseCommonAttrs node [cell], s)))"

definition ParseConjugateTag ::
    "externals \<Rightarrow> parse \<Rightarrow> wxXmlNodePtr \<Rightarrow> state \<Rightarrow> Cell list result" where
  "ParseConjugateTag ext pt node s =
     deref node (\<lambda>n.
       let child = SkipWhitespaceNode ext (GetChildren n);
           (a, s) = alloc s
       in and_then (HandleNullPointer_ParseTag ext pt child True s) (\<lambda>inner s.
            let cell = Cell (new_Cell a) (ConjugateCell inner);
                cell = SetType (m_ParserStyle s) cell;
                cell = SetStyle TS_VARIABLE cell;
                cell = SetHighlight (m_highlight s) cell
            in Inr (ParseCommonAttrs node [cell], s)))"

definition ParseParenTag :: "externals \<Rightarrow> parse \<Rightarrow> wxXmlNodePtr \<Rightarrow> state \<Rightarrow> Cell list result" where
  "ParseParenTag ext pt node s =
     deref node (\<lambda>n.
       let child = SkipWhitespaceNode ext (GetChildren n);
           (a, s) = alloc s
       in and_then (pt child True s) (\<lambda>inner s.
            let cell = Cell (new_Cell a) (ParenCell inner True);
                cell = SetType (m_ParserStyle s) cell;
                cell = SetHighlight (m_highlight s) cell;
                cell = SetStyle TS_VARIABLE cell;
                cell = (if GetAttributes n \<noteq> []
                        then Cell (base cell) (ParenCell inner False) else cell)
            in Inr (ParseCommonAttrs node [cell], s)))"

definition ParseLimitTag :: "externals \<Rightarrow> parse \<Rightarrow> wxXmlNodePtr \<Rightarrow> state \<Rightarrow> Cell list result" where
  "ParseLimitTag ext pt node s =
     deref node (\<lambda>n.
       let (limit, s) = with_heap (new_LimitCell True) s;
           child = SkipWhitespaceNode ext (GetChildren n)
       in and_then (HandleNullPointer_ParseTag ext pt child False s) (\<lambda>name s.
            let (limit, s) = with_heap (LimitCell_SetName name limit) s;
                child = GetNextTag ext child
            in and_then (HandleNullPointer_ParseTag ext pt child False s) (\<lambda>under' s.
                 let (limit, s) = with_heap (LimitCell_SetUnder under' limit) s;
                     child = GetNextTag ext child
                 in and_then (HandleNullPointer_ParseTag ext pt child False s) (\<lambda>base' s.
                      let (limit, s) = with_heap (LimitCell_SetBase base' limit) s;
                          limit = SetType (m_ParserStyle s) limit;
                          limit = SetStyle TS_VARIABLE limit
                      in Inr (ParseCommonAttrs node [limit], s)))))"

definition ParseSumTag :: "externals \<Rightarrow> parse \<Rightarrow> wxXmlNodePtr \<Rightarrow> state \<Rightarrow> Cell list result" where
  "ParseSumTag ext pt node s =
     deref node (\<lambda>n.
       let (a, s) = alloc s;
           child = SkipWhitespaceNode ext (GetChildren n);
           type = GetAttribute n (wxT ''type'') (wxT ''sum'');
           sumStyle = (if type = wxT ''prod'' then SM_PROD else SM_SUM);
           highlight = m_highlight s
       in and_then (HandleNullPointer_ParseTag ext pt child False s) (\<lambda>under' s.
            let child = GetNextTag ext child
            in and_then
                 (if type \<noteq> wxT ''lsum'' then HandleNullPointer_ParseTag ext pt child False s
                  else Inr ([], s))
                 (\<lambda>over s.
                    let child = GetNextTag ext child
                    in and_then (HandleNullPointer_ParseTag ext pt child False s) (\<lambda>base' s.
                         let sum = Cell (new_Cell a) (SumCell sumStyle under' over base');
                             sum = SetHighlight highlight sum;
                             sum = SetType (m_ParserStyle s) sum;
                             sum = SetStyle TS_VARIABLE sum
                         in Inr (ParseCommonAttrs node [sum], s)))))"

definition ParseIntTag :: "externals \<Rightarrow> parse \<Rightarrow> wxXmlNodePtr \<Rightarrow> state \<Rightarrow> Cell list result" where
  "ParseIntTag ext pt node s =
     deref node (\<lambda>n.
       let (a, s) = alloc s;
           child = SkipWhitespaceNode ext (GetChildren n);
           highlight = m_highlight s;
           definiteAtt = GetAttribute n (wxT ''def'') (wxT ''true'')
       in if definiteAtt \<noteq> wxT ''true''
          then
            and_then (HandleNullPointer_ParseTag ext pt child False s) (\<lambda>base' s.
              let child = GetNextTag ext child
              in and_then (HandleNullPointer_ParseTag ext pt child True s) (\<lambda>var s.
                   let cell = Cell (new_Cell a) (IntCell INT_IDEF [] [] base' var);
                       cell = SetHighlight highlight cell;
                       cell = SetType (m_ParserStyle s) cell;
                       cell = SetStyle TS_VARIABLE cell
                   in Inr (ParseCommonAttrs node [cell], s)))
          else
            and_then (HandleNullPointer_ParseTag ext pt child False s) (\<lambda>under' s.
              let child = GetNextTag ext child
              in and_then (HandleNullPointer_ParseTag ext pt child False s) (\<lambda>over s.
                   let child = GetNextTag ext child
                   in and_then (HandleNullPointer_ParseTag ext pt child False s) (\<lambda>base' s.
                        let child = GetNextTag ext child
                        in and_then (HandleNullPointer_ParseTag ext pt child True s) (\<lambda>var s.
                             let cell = Cell (new_Cell a) (IntCell INT_DEF under' over base' var);
                                 cell = SetHighlight highlight cell;
                                 cell = SetType (m_ParserStyle s) cell;
                                 cell = SetStyle TS_VARIABLE cell
                             in Inr (ParseCommonAttrs node [cell], s))))))"

fun ParseTableTag_cells ::
    "externals \<Rightarrow> parse \<Rightarrow> wxXmlNodePtr \<Rightarrow> Cell list list \<Rightarrow> state \<Rightarrow> Cell list list result" where
  "ParseTableTag_cells ext pt [] row s = Inr (row, s)"
| "ParseTableTag_cells ext pt (c # rest) row s =
     and_then (HandleNullPointer_ParseTag ext pt (c # rest) False s) (\<lambda>cell s.
       ParseTableTag_cells ext pt (GetNextTag ext (c # rest)) (row @ [cell]) s)"

fun ParseTableTag_rows ::
    "externals \<Rightarrow> parse \<Rightarrow> wxXmlNodePtr \<Rightarrow> Cell list list list \<Rightarrow> state
     \<Rightarrow> Cell list list list result" where
  "ParseTableTag_rows ext pt [] matrix s = Inr (matrix, s)"
| "ParseTableTag_rows ext pt (r # rest) matrix s =
     and_then (ParseTableTag_cells ext pt (SkipWhitespaceNode ext (GetChildren r)) [] s)
       (\<lambda>row s. ParseTableTag_rows ext pt (GetNextTag ext (r # rest)) (matrix @ [row]) s)"

definition ParseTableTag :: "externals \<Rightarrow> parse \<Rightarrow> wxXmlNodePtr \<Rightarrow> state \<Rightarrow> Cell list result" where
  "ParseTableTag ext pt node s =
     deref node (\<lambda>n.
       let (a, s) = alloc s;
           highlight = m_highlight s;
           inference = (GetAttribute n (wxT ''inference'') (wxT ''false'') = wxT ''true'');
           flags = \<lparr> m_specialMatrix =
                       (GetAttribute n (wxT ''special'') (wxT ''false'') = wxT ''true'' \<or> inference),
                     m_inferenceMatrix = inference,
                     m_colNames = (GetAttribute n (wxT ''colnames'') (wxT ''false'') = wxT ''true''),
                     m_rowNames = (GetAttribute n (wxT ''rownames'') (wxT ''false'') = wxT ''true''),
                     m_roundedParens =
                       (GetAttribute n (wxT ''roundedParens'') (wxT ''false'') = wxT ''true'') \<rparr>
       in and_then (ParseTableTag_rows ext pt (SkipWhitespaceNode ext (GetChildren n)) [] s)
            (\<lambda>rows s.
               let matrix = Cell (new_Cell a) (MatrCell flags rows);
                   matrix = SetHighlight highlight matrix;
                   matrix = SetType (m_ParserStyle s) matrix;
                   matrix = SetStyle TS_VARIABLE matrix
               in Inr (ParseCommonAttrs node [matrix], s)))"


subsection \<open>ParseTag\<close>

definition m_innerTags ::
    "externals \<Rightarrow> parse \<Rightarrow> nat
     \<Rightarrow> (wxString \<times> (wxXmlNodePtr \<Rightarrow> state \<Rightarrow> Cell list result)) list" where
  \<comment> \<open>the table that the constructor of \<^verbatim>\<open>MathParser\<close> fills\<close>
  "m_innerTags ext pt fuel =
     [(wxT ''v'', ParseVariableNameTag ext),
      (wxT ''mi'', ParseVariableNameTag ext),
      (wxT ''mo'', ParseOperatorNameTag ext),
      (wxT ''t'', ParseMiscTextTag),
      (wxT ''n'', ParseNumberTag ext),
      (wxT ''mn'', ParseNumberTag ext),
      (wxT ''p'', ParseParenTag ext pt),
      (wxT ''f'', ParseFracTag ext pt),
      (wxT ''mfrac'', ParseFracTag ext pt),
      (wxT ''e'', ParseSupTag ext pt),
      (wxT ''msup'', ParseSupTag ext pt),
      (wxT ''i'', ParseSubTag ext pt),
      (wxT ''munder'', ParseSubTag ext pt),
      (wxT ''fn'', ParseFunTag ext pt),
      (wxT ''g'', ParseGreekTag ext),
      (wxT ''s'', ParseSpecialConstantTag ext),
      (wxT ''fnm'', ParseFunctionNameTag ext),
      (wxT ''q'', ParseSqrtTag ext pt),
      (wxT ''d'', ParseDiffTag ext pt),
      (wxT ''sm'', ParseSumTag ext pt),
      (wxT ''in'', ParseIntTag ext pt),
      (wxT ''mspace'', ParseSpaceTag ext),
      (wxT ''at'', ParseAtTag ext pt),
      (wxT ''a'', ParseAbsTag ext pt),
      (wxT ''cj'', ParseConjugateTag ext pt),
      (wxT ''ie'', ParseSubSupTag ext pt),
      (wxT ''mmultiscripts'', ParseMmultiscriptsTag ext pt),
      (wxT ''lm'', ParseLimitTag ext pt),
      (wxT ''r'', ParseTagContents pt),
      (wxT ''mrow'', ParseTagContents pt),
      (wxT ''tb'', ParseTableTag ext pt),
      (wxT ''mth'', ParseMthTag pt),
      (wxT ''line'', ParseMthTag pt),
      (wxT ''lbl'', ParseOutputLabelTag),
      (wxT ''st'', ParseStringTag ext),
      (wxT ''hl'', ParseHighlightTag pt),
      (wxT ''h'', ParseHiddenOperatorTag),
      (wxT ''img'', ParseImageTag ext),
      (wxT ''slide'', ParseSlideshowTag ext),
      (wxT ''editor'', ParseEditorTag),
      (wxT ''cell'', ParseCellTag ext pt fuel),
      (wxT ''ascii'', ParseCharCode ext)]"

text \<open>
  The local variables of \<^verbatim>\<open>ParseTag\<close>: \<open>retval\<close> and \<open>ownedCell\<close> own a chain each,
  and the raw pointer \<open>cell\<close> is null or points into one of the two chains, at a position.
  The \<^verbatim>\<open>wxASSERT(ownedCell)\<close> of the loop is a debugging aid that changes nothing, and
  \<^verbatim>\<open>ParseTag(node->GetChildren())\<close> is called with the default \<^verbatim>\<open>all = true\<close>.
\<close>

datatype cursor = cursor_null | in_retval nat | in_ownedCell nat

definition cursor_AppendCell ::
    "cursor \<Rightarrow> Cell list \<Rightarrow> Cell list \<times> Cell list \<Rightarrow> Cell list \<times> Cell list" where
  \<comment> \<open>\<^verbatim>\<open>cell->AppendCell(p)\<close>, on the owned \<open>(retval, ownedCell)\<close>\<close>
  "cursor_AppendCell cell p owned =
     (case cell of
        in_retval _ \<Rightarrow> (AppendCell (fst owned) p, snd owned)
      | in_ownedCell _ \<Rightarrow> (fst owned, AppendCell (snd owned) p)
      | cursor_null \<Rightarrow> owned)"

definition cursor_next :: "cursor \<Rightarrow> Cell list \<times> Cell list \<Rightarrow> cursor" where
  \<comment> \<open>\<^verbatim>\<open>cell->m_next.get()\<close>\<close>
  "cursor_next cell owned =
     (case cell of
        in_retval i \<Rightarrow> if Suc i < length (fst owned) then in_retval (Suc i) else cursor_null
      | in_ownedCell i \<Rightarrow> if Suc i < length (snd owned) then in_ownedCell (Suc i) else cursor_null
      | cursor_null \<Rightarrow> cursor_null)"

definition cursor_chain :: "cursor \<Rightarrow> Cell list \<times> Cell list \<Rightarrow> Cell list" where
  \<comment> \<open>the cell that \<open>cell\<close> points to, with the rest of its chain\<close>
  "cursor_chain cell owned =
     (case cell of
        in_retval i \<Rightarrow> drop i (fst owned)
      | in_ownedCell i \<Rightarrow> drop i (snd owned)
      | cursor_null \<Rightarrow> [])"

definition LoggingMessageBox :: "wxString \<Rightarrow> state \<Rightarrow> state" where
  "LoggingMessageBox message s = s\<lparr> messageBoxes := message # messageBoxes s \<rparr>"

fun ParseTag_loop ::
    "externals \<Rightarrow> parse \<Rightarrow> nat \<Rightarrow> bool \<Rightarrow> wxXmlNodePtr \<Rightarrow> Cell list \<Rightarrow> Cell list \<Rightarrow> cursor
     \<Rightarrow> bool \<Rightarrow> state \<Rightarrow> Cell list result" where
  "ParseTag_loop ext pt fuel all [] retval ownedCell cell warning s = Inr (retval, s)"
| "ParseTag_loop ext pt fuel all (n # rest) retval ownedCell cell warning s =
     and_then
       (if GetType n = wxXML_ELEMENT_NODE
        then
          (let tagName = GetName n
           in and_then
                (case map_of (m_innerTags ext pt fuel) tagName of
                   Some function \<Rightarrow> function (n # rest) s
                 | None \<Rightarrow> Inr ([], s))
                (\<lambda>tmp s.
                   and_then
                     (if tmp = [] \<and> GetChildren n \<noteq> [] then pt (GetChildren n) True s
                      else Inr (tmp, s))
                     (\<lambda>tmp s.
                        if tmp = []
                        then (let tmp = ParseCommonAttrs (n # rest) tmp
                              in if cell = cursor_null
                                 then Inr ((retval, tmp,
                                            if tmp = [] then cursor_null else in_ownedCell 0), s)
                                 else (let (retval, ownedCell) =
                                             cursor_AppendCell cell tmp (retval, ownedCell)
                                       in Inr ((retval, ownedCell, cell), s)))
                        else Inr ((retval, ownedCell, cell), s))))
        else
          (if cell = cursor_null
           then (let (ownedCell, s) = ParseText (n # rest) TS_DEFAULT s
                 in Inr ((retval, ownedCell, in_ownedCell 0), s))
           else (let (text, s) = ParseText (n # rest) TS_DEFAULT s;
                     (retval, ownedCell) = cursor_AppendCell cell text (retval, ownedCell)
                 in Inr ((retval, ownedCell, cell), s))))
       (\<lambda>(retval, ownedCell, cell) s.
          let (retval, ownedCell, cell, warning, s) =
                (if cell \<noteq> cursor_null
                 then (if retval = []
                       then (ownedCell, [],
                             case cell of in_ownedCell i \<Rightarrow> in_retval i | _ \<Rightarrow> cell,
                             warning, s)
                       else (retval, ownedCell, cursor_next cell (retval, ownedCell), warning, s))
                 else if warning \<and> \<not> all
                 then (let name = wxEmptyString;
                           name = (if cell \<noteq> cursor_null
                                   then ToString (cell_ops ext) (cursor_chain cell (retval, ownedCell))
                                   else name)
                       in if length name \<noteq> 0
                          then (retval, ownedCell, cell, False,
                                LoggingMessageBox (gettext ext
                                  (wxT ''Parts of the document will not be loaded correctly:''
                                   @ [10] @ wxT ''Found unknown XML Tag name '' @ name)) s)
                          else (retval, ownedCell, cell, warning, s))
                 else (retval, ownedCell, cell, warning, s))
          in if \<not> all then Inr (retval, s)
             else ParseTag_loop ext pt fuel all (GetNextTag ext (n # rest))
                    retval ownedCell cell warning s)"

text \<open>
  \<^verbatim>\<open>ParseTag\<close> calls itself on the children of a node, through the routines of the table
  and directly, and \<^verbatim>\<open>ParseCellTag\<close> has a loop that need not end: \<open>fuel\<close> bounds the
  depth of the calls and the rounds of that loop, and a computation that needs more is
  \<open>Inl OutOfFuel\<close>.
\<close>

primrec ParseTag :: "externals \<Rightarrow> nat \<Rightarrow> wxXmlNodePtr \<Rightarrow> bool \<Rightarrow> state \<Rightarrow> Cell list result" where
  "ParseTag ext 0 node all s = Inl OutOfFuel"
| "ParseTag ext (Suc fuel) node all s =
     ParseTag_loop ext (ParseTag ext fuel) fuel all (SkipWhitespaceNode ext node)
       [] [] cursor_null all s"

definition showLength :: "externals \<Rightarrow> int" where
  \<comment> \<open>the \<^verbatim>\<open>switch\<close> of \<^verbatim>\<open>ParseLine\<close> on the configured \<^verbatim>\<open>ShowLength()\<close>\<close>
  "showLength ext =
     (if ShowLength ext = 0 then 6000
      else if ShowLength ext = 1 then 20000
      else if ShowLength ext = 2 then 250000
      else if ShowLength ext = 3 then 0
      else 50000)"

definition m_graphRegex_Replace :: "externals \<Rightarrow> wxString \<Rightarrow> wxString" where
  \<comment> \<open>\<^verbatim>\<open>m_graphRegex.Replace(&s, wxT("\uFFFD"))\<close>: every control character becomes
      the replacement character\<close>
  "m_graphRegex_Replace ext s0 = map (\<lambda>c. if iscntrl ext c then 65533 else c) s0"

definition ParseLine ::
    "externals \<Rightarrow> nat \<Rightarrow> wxString \<Rightarrow> CellType \<Rightarrow> state \<Rightarrow> Cell list result" where
  "ParseLine ext fuel s0 style st =
     (let st = st\<lparr> m_ParserStyle := style, m_FracStyle := FC_NORMAL, m_highlight := False \<rparr>;
          showLength = showLength ext;
          s0 = m_graphRegex_Replace ext s0
      in if int (length s0) < showLength \<or> showLength = 0
         then (let st = st\<lparr> xmlLoads := s0 # xmlLoads st \<rparr>
               in case xml_Load ext s0 of
                    Some doc \<Rightarrow> ParseTag ext fuel (GetChildren doc) True st
                  | None \<Rightarrow> Inr ([], st))
         else (let (a, st) = alloc st;
                   cell = new_TextCell a (gettext ext
                     (wxT ''(Expression longer than allowed by the configuration setting)''))
                     TS_WARNING;
                   cell = SetToolTip (gettext ext
                     (wxT ''The maximum size of the expressions wxMaxima is allowed to display ''
                      @ wxT ''can be changed in the configuration dialogue.'')) cell;
                   cell = ForceBreakLine True cell
               in Inr ([cell], st)))"


section \<open>What the properties are stated with\<close>

subsection \<open>The state of a cell and the calls that change it\<close>

definition broken :: "Cell \<Rightarrow> bool" where
  "broken c = m_isBrokenIntoLines (base c)"

definition m_nameCell_of :: "Cell \<Rightarrow> Cell list" where
  "m_nameCell_of c = (case kind c of FunCell m_nameCell _ \<Rightarrow> m_nameCell | _ \<Rightarrow> [])"

definition m_argCell_of :: "Cell \<Rightarrow> Cell list" where
  "m_argCell_of c = (case kind c of FunCell _ m_argCell \<Rightarrow> m_argCell | _ \<Rightarrow> [])"

definition m_name_of :: "Cell \<Rightarrow> Cell list" where
  "m_name_of c = (case kind c of LimitCell m_name _ _ _ _ _ \<Rightarrow> m_name | _ \<Rightarrow> [])"

definition m_under_of :: "Cell \<Rightarrow> Cell list" where
  "m_under_of c = (case kind c of LimitCell _ m_under _ _ _ _ \<Rightarrow> m_under | _ \<Rightarrow> [])"

definition m_base_of :: "Cell \<Rightarrow> Cell list" where
  "m_base_of c = (case kind c of LimitCell _ _ m_base _ _ _ \<Rightarrow> m_base | _ \<Rightarrow> [])"




text \<open>
  The methods of FunCell.cpp and LimitCell.cpp that change the cell they are called on, as
  calls that can be put in a sequence. \<^verbatim>\<open>Draw\<close> is left out: painting goes through the
  toolkit.
\<close>

datatype FunCell_method =
    Fun_SetName "Cell list" | Fun_SetArg "Cell list" | Fun_RecalculateWidths int
  | Fun_RecalculateHeight int | Fun_BreakUp | Fun_SetNextToDrawImpl CellPtr

fun FunCell_call :: "Cell_ops \<Rightarrow> Cell \<times> nat \<Rightarrow> FunCell_method \<Rightarrow> Cell \<times> nat" where
  "FunCell_call ops (c, heap) (Fun_SetName name) = FunCell_SetName name c heap"
| "FunCell_call ops (c, heap) (Fun_SetArg arg) = FunCell_SetArg arg c heap"
| "FunCell_call ops (c, heap) (Fun_RecalculateWidths fontsize) =
     (FunCell_RecalculateWidths ops fontsize c, heap)"
| "FunCell_call ops (c, heap) (Fun_RecalculateHeight fontsize) =
     (FunCell_RecalculateHeight ops fontsize c, heap)"
| "FunCell_call ops (c, heap) Fun_BreakUp = (snd (FunCell_BreakUp ops c), heap)"
| "FunCell_call ops (c, heap) (Fun_SetNextToDrawImpl next) =
     (FunCell_SetNextToDrawImpl ops next c, heap)"

datatype LimitCell_method =
    Limit_SetName "Cell list" | Limit_SetBase "Cell list" | Limit_SetUnder "Cell list"
  | Limit_RecalculateWidths int | Limit_RecalculateHeight int | Limit_BreakUp
  | Limit_SetNextToDrawImpl CellPtr

fun LimitCell_call :: "Cell_ops \<Rightarrow> Cell \<times> nat \<Rightarrow> LimitCell_method \<Rightarrow> Cell \<times> nat" where
  "LimitCell_call ops (c, heap) (Limit_SetName name) = LimitCell_SetName name c heap"
| "LimitCell_call ops (c, heap) (Limit_SetBase base') = LimitCell_SetBase base' c heap"
| "LimitCell_call ops (c, heap) (Limit_SetUnder under') = LimitCell_SetUnder under' c heap"
| "LimitCell_call ops (c, heap) (Limit_RecalculateWidths fontsize) =
     (LimitCell_RecalculateWidths ops fontsize c, heap)"
| "LimitCell_call ops (c, heap) (Limit_RecalculateHeight fontsize) =
     (LimitCell_RecalculateHeight ops fontsize c, heap)"
| "LimitCell_call ops (c, heap) Limit_BreakUp = (snd (LimitCell_BreakUp ops c), heap)"
| "LimitCell_call ops (c, heap) (Limit_SetNextToDrawImpl next) =
     (LimitCell_SetNextToDrawImpl ops next c, heap)"

subsection \<open>The two placeholder cells and the cell of the size limit\<close>

definition missing_contents :: "externals \<Rightarrow> nat \<Rightarrow> Cell" where
  \<comment> \<open>the cell that \<open>HandleNullPointer\<close> allocates at address \<open>a\<close>\<close>
  "missing_contents ext a =
     Cell ((new_Cell a)\<lparr> m_textStyle := TS_ERROR,
             m_toolTip := gettext ext
               (wxT ''The xml data from maxima or from the .wxmx file was missing data here.''
                @ [10] @
                wxT ''If you find a way how to reproduce this problem please file a bug ''
                @ wxT ''report against wxMaxima.'') \<rparr>)
          (TextCell (gettext ext (wxT ''Bug: Missing contents'')) wxEmptyString)"

definition too_long_cell :: "externals \<Rightarrow> nat \<Rightarrow> Cell" where
  \<comment> \<open>the cell that \<open>ParseLine\<close> allocates at address \<open>a\<close> for an input over the limit\<close>
  "too_long_cell ext a =
     Cell ((new_Cell a)\<lparr> m_textStyle := TS_WARNING,
             m_toolTip := gettext ext
               (wxT ''The maximum size of the expressions wxMaxima is allowed to display ''
                @ wxT ''can be changed in the configuration dialogue.''),
             m_forceBreakLine := True \<rparr>)
          (TextCell (gettext ext
             (wxT ''(Expression longer than allowed by the configuration setting)'')) wxEmptyString)"

subsection \<open>Concrete inputs\<close>

text \<open>
  One instance of the operations taken from outside src/: a text cell is as wide as the
  font size and twice as high, a pixel is a pixel, scripts are raised by four fifths of the
  font size and two pixels, no font is smaller than 6, a chain renders to the texts of its
  cells, \<^verbatim>\<open>SetNextToDraw\<close> stores the link, and \<^verbatim>\<open>ResetData\<close> changes nothing.
\<close>

definition ops0 :: Cell_ops where
  "ops0 = \<lparr> RecalculateWidthsList =
              (\<lambda>fontsize. map (\<lambda>c. Cell ((base c)\<lparr> m_width := fontsize,
                                                   m_widths_fontsize_old := fontsize \<rparr>)
                                            (kind c))),
            RecalculateHeightList =
              (\<lambda>fontsize. map (\<lambda>c. Cell ((base c)\<lparr> m_height := 2 * fontsize,
                                                   m_center := fontsize,
                                                   m_height_fontsize_old := fontsize \<rparr>)
                                            (kind c))),
            RecalculateList =
              (\<lambda>fontsize. map (\<lambda>c. Cell ((base c)\<lparr> m_width := fontsize,
                                                   m_height := 2 * fontsize,
                                                   m_center := fontsize,
                                                   m_widths_fontsize_old := fontsize,
                                                   m_height_fontsize_old := fontsize \<rparr>)
                                            (kind c))),
            GetFullWidth = (\<lambda>p. sum_list (map (\<lambda>c. m_width (base c)) p)),
            GetCenterList = (\<lambda>p. fold (\<lambda>c m. max (m_center (base c)) m) p 0),
            GetHeightList = (\<lambda>p. fold (\<lambda>c m. max (m_height (base c)) m) p 0),
            GetMaxDrop = (\<lambda>p. fold (\<lambda>c m. max (m_height (base c) - m_center (base c)) m) p 0),
            Scale_Px = (\<lambda>px. px),
            Scale_Px_EXP_INDENT = (\<lambda>fontsize. (4 * fontsize) div 5 + 2),
            AFontSize_MC_MIN_SIZE = (\<lambda>sz. max 6 sz),
            ToString = GetValue,
            ListToString = (\<lambda>p. concat (map (\<lambda>c. GetValue [c]) p)),
            ListToMatlab = (\<lambda>p. concat (map (\<lambda>c. GetValue [c]) p)),
            ListToTeX = (\<lambda>p. concat (map (\<lambda>c. GetValue [c]) p)),
            SetNextToDraw = (\<lambda>next c. Cell ((base c)\<lparr> m_nextToDraw := next \<rparr>) (kind c)),
            ResetData = (\<lambda>b. b) \<rparr>"

definition sin_x :: Cell where
  "sin_x = Cell (new_Cell 0) (FunCell [new_TextCell 1 (wxT ''sin'') TS_FUNCTION]
                                      [new_TextCell 2 (wxT ''(x)'') TS_DEFAULT])"

definition foo_x :: Cell where
  "foo_x = Cell (new_Cell 0) (FunCell [new_TextCell 1 (wxT ''foo'') TS_FUNCTION]
                                      [new_TextCell 2 (wxT ''(x)'') TS_DEFAULT])"

definition limit_example :: "string \<Rightarrow> Cell" where
  "limit_example under' =
     Cell (new_Cell 0) (LimitCell [new_TextCell 4 (wxT ''lim'') TS_DEFAULT]
                                  [new_TextCell 5 (wxT under') TS_DEFAULT]
                                  [new_TextCell 6 (wxT ''f(x)'') TS_DEFAULT]
                                  [new_TextCell 1 (wxT ''('') TS_FUNCTION]
                                  [new_TextCell 2 (wxT '','') TS_FUNCTION]
                                  [new_TextCell 3 (wxT '')'') TS_FUNCTION])"




definition break_base :: "Cell \<Rightarrow> Cell" where
  \<comment> \<open>the cell with the broken-into-lines flag set\<close>
  "break_base c = Cell ((base c)\<lparr> m_isBrokenIntoLines := True \<rparr>) (kind c)"

definition text_node :: "string \<Rightarrow> wxXmlNode" where
  "text_node str = wxXmlNode wxXML_TEXT_NODE (wxT ''text'') (wxT str) [] []"

definition element :: "string \<Rightarrow> (string \<times> string) list \<Rightarrow> wxXmlNode list \<Rightarrow> wxXmlNode" where
  "element name attrs children =
     wxXmlNode wxXML_ELEMENT_NODE (wxT name) [] (map (\<lambda>(k, v). (wxT k, wxT v)) attrs) children"

definition fn_example :: wxXmlNode where
  \<comment> \<open>\<^verbatim>\<open><fn><t>f</t><p><t>x</t></p></fn>\<close>\<close>
  "fn_example = element ''fn'' [] [element ''t'' [] [text_node ''f''],
                                  element ''p'' [] [element ''t'' [] [text_node ''x'']]]"

definition fold_example :: "string \<Rightarrow> wxXmlNode" where
  \<comment> \<open>\<^verbatim>\<open><cell type="code"><fold><cell type="..."/></fold></cell>\<close>\<close>
  "fold_example type =
     element ''cell'' [(''type'', ''code'')]
       [element ''fold'' [] [element ''cell'' [(''type'', type)] []]]"

definition no_routine :: "wxXmlNodePtr \<Rightarrow> state \<Rightarrow> Cell list result" where
  "no_routine node s = Inr ([], s)"

text \<open>
  One instance of what the parser takes from outside src/, with the configured
  \<^verbatim>\<open>ShowLength()\<close> left open: the loader answers every text with the document
  \<^verbatim>\<open><wxxml>hello</wxxml>\<close>, nothing is translated, and the routines that MathParser.cpp
  does not define find nothing.
\<close>

definition ext0 :: "int \<Rightarrow> externals" where
  "ext0 n = \<lparr> cell_ops = ops0,
              wxIsspace = (\<lambda>c. c = 32 \<or> (9 \<le> c \<and> c \<le> 13)),
              iscntrl = (\<lambda>c. c < 32 \<or> c = 127),
              gettext = (\<lambda>msgid. msgid),
              ToLong = (\<lambda>str. None),
              ToDouble = (\<lambda>str. None),
              ShowLength = n,
              xml_Load = (\<lambda>str. Some (element ''wxxml'' [] [text_node ''hello''])),
              GetImageCount = (\<lambda>filename. 1),
              wxFileExists = (\<lambda>filename. False),
              GetWorkingDirectory = wxEmptyString,
              ParseVariableNameTag = no_routine,
              ParseOperatorNameTag = no_routine,
              ParseNumberTag = no_routine,
              ParseGreekTag = no_routine,
              ParseSpecialConstantTag = no_routine,
              ParseFunctionNameTag = no_routine,
              ParseSpaceTag = no_routine,
              ParseStringTag = no_routine,
              GroupCellFromPagebreakTag = no_routine,
              GroupCellFromTextTag = no_routine,
              GroupCellFromTitleTag = no_routine,
              GroupCellFromSectionTag = no_routine,
              GroupCellFromSubsubsectionTag = no_routine,
              GroupCellHeading5Tag = no_routine,
              GroupCellHeading6Tag = no_routine \<rparr>"

definition st0 :: state where
  "st0 = \<lparr> m_ParserStyle = MC_TYPE_DEFAULT, m_FracStyle = FC_NORMAL, m_highlight = False,
           m_fileSystem = False, m_userDefinedLabel = wxEmptyString, heap_top = 0,
           messageBoxes = [], xmlLoads = [] \<rparr>"

definition long_input :: wxString where
  "long_input = replicate 6000 120"

definition hello_cell :: "state \<Rightarrow> Cell" where
  \<comment> \<open>the text cell that \<open>ParseText\<close> makes of the text \<^verbatim>\<open>hello\<close> in state \<open>s\<close>\<close>
  "hello_cell s =
     Cell ((new_Cell (heap_top s))\<lparr> m_type := m_ParserStyle s, m_highlightCell := m_highlight s \<rparr>)
          (TextCell (wxT ''hello'') wxEmptyString)"


section \<open>Properties of the cells\<close>

subsection \<open>Breaking up\<close>

lemma FunCell_call_broken:
  assumes keeps: "\<And>b. m_isBrokenIntoLines (ResetData ops b) = m_isBrokenIntoLines b"
    and "m_isBrokenIntoLines b"
  shows "\<exists>b' n' a' heap'. FunCell_call ops (Cell b (FunCell n a), heap) m
                              = (Cell b' (FunCell n' a'), heap')
           \<and> m_isBrokenIntoLines b'"
  using assms(2)
  by (cases m)
     (auto simp add: Let_def InvalidCellOr_def Cell_RecalculateWidths_def
        Cell_RecalculateHeight_def split: prod.splits)

lemma FunCell_calls_broken:
  assumes keeps: "\<And>b. m_isBrokenIntoLines (ResetData ops b) = m_isBrokenIntoLines b"
  shows "m_isBrokenIntoLines b \<Longrightarrow>
         broken (fst (foldl (FunCell_call ops) (Cell b (FunCell n a), heap) ms))"
proof (induction ms arbitrary: b n a heap)
  case Nil
  then show ?case by (simp add: broken_def)
next
  case (Cons m ms)
  obtain b' n' a' heap' where
    "FunCell_call ops (Cell b (FunCell n a), heap) m = (Cell b' (FunCell n' a'), heap')"
    "m_isBrokenIntoLines b'"
    using FunCell_call_broken [OF keeps Cons.prems, of n a heap m] by blast
  then show ?case using Cons.IH [of b' n' a' heap'] by simp
qed

lemma LimitCell_call_broken:
  assumes keeps: "\<And>b. m_isBrokenIntoLines (ResetData ops b) = m_isBrokenIntoLines b"
    and "m_isBrokenIntoLines b"
  shows "\<exists>b' n' u' bs' op' cm' cl' heap'.
           LimitCell_call ops (Cell b (LimitCell n u bs op cm cl), heap) m
             = (Cell b' (LimitCell n' u' bs' op' cm' cl'), heap')
           \<and> m_isBrokenIntoLines b'"
  using assms(2)
  by (cases m)
     (auto simp add: Let_def InvalidCellOr_def Cell_RecalculateWidths_def
        Cell_RecalculateHeight_def split: prod.splits)

lemma LimitCell_calls_broken:
  assumes keeps: "\<And>b. m_isBrokenIntoLines (ResetData ops b) = m_isBrokenIntoLines b"
  shows "m_isBrokenIntoLines b \<Longrightarrow>
         broken (fst (foldl (LimitCell_call ops) (Cell b (LimitCell n u bs op cm cl), heap) ms))"
proof (induction ms arbitrary: b n u bs op cm cl heap)
  case Nil
  then show ?case by (simp add: broken_def)
next
  case (Cons m ms)
  obtain b' n' u' bs' op' cm' cl' heap' where
    "LimitCell_call ops (Cell b (LimitCell n u bs op cm cl), heap) m
       = (Cell b' (LimitCell n' u' bs' op' cm' cl'), heap')"
    "m_isBrokenIntoLines b'"
    using LimitCell_call_broken [OF keeps Cons.prems, of n u bs op cm cl heap m] by blast
  then show ?case using Cons.IH [of b' n' u' bs' op' cm' cl' heap'] by simp
qed

lemma ops0_keeps: "m_isBrokenIntoLines (ResetData ops0 b) = m_isBrokenIntoLines b"
  by (simp add: ops0_def)

text \<open>
  Claim C4. \<^verbatim>\<open>BreakUp\<close> is one-way and idempotent, for the function cell and for the
  limit cell. On a cell that is not broken into lines the call returns true and the cell is
  broken into lines afterwards; on a cell that is broken into lines the call returns false
  and leaves the whole cell as it is, the flag and the links of the draw chain included, so
  every call after the first does; and no sequence of the calls that change a cell takes a
  broken cell back to the unbroken state. \<^verbatim>\<open>ResetData\<close>, which \<^verbatim>\<open>BreakUp\<close> calls last,
  is declared outside src/: the one thing assumed of it is that it keeps the flag.
\<close>

theorem BreakUp_one_way_idempotent:
  assumes keeps: "\<And>b. m_isBrokenIntoLines (ResetData ops b) = m_isBrokenIntoLines b"
  shows "(\<not> m_isBrokenIntoLines b \<longrightarrow>
            fst (FunCell_BreakUp ops (Cell b (FunCell n a)))
            \<and> broken (snd (FunCell_BreakUp ops (Cell b (FunCell n a))))
            \<and> FunCell_BreakUp ops (snd (FunCell_BreakUp ops (Cell b (FunCell n a))))
                = (False, snd (FunCell_BreakUp ops (Cell b (FunCell n a)))))
       \<and> (m_isBrokenIntoLines b \<longrightarrow>
            FunCell_BreakUp ops (Cell b (FunCell n a)) = (False, Cell b (FunCell n a))
            \<and> broken (fst (foldl (FunCell_call ops) (Cell b (FunCell n a), heap) ms)))
       \<and> (\<not> m_isBrokenIntoLines b \<longrightarrow>
            fst (LimitCell_BreakUp ops (Cell b (LimitCell nm u bs op cm cl)))
            \<and> broken (snd (LimitCell_BreakUp ops (Cell b (LimitCell nm u bs op cm cl))))
            \<and> LimitCell_BreakUp ops
                  (snd (LimitCell_BreakUp ops (Cell b (LimitCell nm u bs op cm cl))))
                = (False, snd (LimitCell_BreakUp ops (Cell b (LimitCell nm u bs op cm cl)))))
       \<and> (m_isBrokenIntoLines b \<longrightarrow>
            LimitCell_BreakUp ops (Cell b (LimitCell nm u bs op cm cl))
              = (False, Cell b (LimitCell nm u bs op cm cl))
            \<and> broken (fst (foldl (LimitCell_call ops)
                              (Cell b (LimitCell nm u bs op cm cl), heap) ms')))"
proof (intro conjI impI)
  assume "m_isBrokenIntoLines b"
  then show "broken (fst (foldl (FunCell_call ops) (Cell b (FunCell n a), heap) ms))"
    by (rule FunCell_calls_broken [OF keeps])
next
  assume "m_isBrokenIntoLines b"
  then show "broken (fst (foldl (LimitCell_call ops)
                            (Cell b (LimitCell nm u bs op cm cl), heap) ms'))"
    by (rule LimitCell_calls_broken [OF keeps])
qed (simp_all add: keeps broken_def Let_def)

theorem BreakUp_one_way_idempotent_witness:
  "fst (FunCell_BreakUp ops0 sin_x)
   \<and> broken (snd (FunCell_BreakUp ops0 sin_x))
   \<and> FunCell_BreakUp ops0 (snd (FunCell_BreakUp ops0 sin_x))
       = (False, snd (FunCell_BreakUp ops0 sin_x))
   \<and> FunCell_BreakUp ops0 (break_base sin_x) = (False, break_base sin_x)
   \<and> broken (fst (foldl (FunCell_call ops0) (break_base sin_x, 10)
                 [Fun_RecalculateWidths 12, Fun_SetName [], Fun_BreakUp, Fun_RecalculateHeight 14]))
   \<and> fst (LimitCell_BreakUp ops0 (limit_example ''x->0''))
   \<and> broken (snd (LimitCell_BreakUp ops0 (limit_example ''x->0'')))
   \<and> LimitCell_BreakUp ops0 (snd (LimitCell_BreakUp ops0 (limit_example ''x->0'')))
       = (False, snd (LimitCell_BreakUp ops0 (limit_example ''x->0'')))
   \<and> LimitCell_BreakUp ops0 (break_base (limit_example ''x->0''))
       = (False, break_base (limit_example ''x->0''))
   \<and> broken (fst (foldl (LimitCell_call ops0) (break_base (limit_example ''x->0''), 10)
                 [Limit_RecalculateWidths 12, Limit_SetUnder [], Limit_BreakUp]))"
proof -
  have u: "\<not> m_isBrokenIntoLines (new_Cell 0)"
    and b: "m_isBrokenIntoLines ((new_Cell 0)\<lparr> m_isBrokenIntoLines := True \<rparr>)"
    by (simp_all add: new_Cell_def)
  show ?thesis
    using u b
      BreakUp_one_way_idempotent [OF ops0_keeps, of "new_Cell 0"
        "[new_TextCell 1 (wxT ''sin'') TS_FUNCTION]" "[new_TextCell 2 (wxT ''(x)'') TS_DEFAULT]"
        10 "[]"
        "[new_TextCell 4 (wxT ''lim'') TS_DEFAULT]" "[new_TextCell 5 (wxT ''x->0'') TS_DEFAULT]"
        "[new_TextCell 6 (wxT ''f(x)'') TS_DEFAULT]" "[new_TextCell 1 (wxT ''('') TS_FUNCTION]"
        "[new_TextCell 2 (wxT '','') TS_FUNCTION]" "[new_TextCell 3 (wxT '')'') TS_FUNCTION]" "[]"]
      BreakUp_one_way_idempotent [OF ops0_keeps,
        of "(new_Cell 0)\<lparr> m_isBrokenIntoLines := True \<rparr>"
        "[new_TextCell 1 (wxT ''sin'') TS_FUNCTION]" "[new_TextCell 2 (wxT ''(x)'') TS_DEFAULT]"
        10 "[Fun_RecalculateWidths 12, Fun_SetName [], Fun_BreakUp, Fun_RecalculateHeight 14]"
        "[new_TextCell 4 (wxT ''lim'') TS_DEFAULT]" "[new_TextCell 5 (wxT ''x->0'') TS_DEFAULT]"
        "[new_TextCell 6 (wxT ''f(x)'') TS_DEFAULT]" "[new_TextCell 1 (wxT ''('') TS_FUNCTION]"
        "[new_TextCell 2 (wxT '','') TS_FUNCTION]" "[new_TextCell 3 (wxT '')'') TS_FUNCTION]"
        "[Limit_RecalculateWidths 12, Limit_SetUnder [], Limit_BreakUp]"]
    unfolding sin_x_def limit_example_def break_base_def by simp
qed

subsection \<open>Measuring\<close>

text \<open>
  Claim C5, as amended. For a cell that is broken into lines, a recalculation that the
  needs-recalculation guard lets through sets the width to 0, for the function cell and
  for the limit cell. It sets the height of the function cell to 0, and the height and the
  center of the limit cell to those of the chain of its name. A recalculation that the guard
  skips leaves the cell as it is.
\<close>

theorem Recalculate_broken:
  "(m_isBrokenIntoLines b \<and> NeedsRecalculation b fontsize \<longrightarrow>
      m_width (base (FunCell_RecalculateWidths ops fontsize (Cell b (FunCell n a)))) = 0
      \<and> m_height (base (FunCell_RecalculateHeight ops fontsize (Cell b (FunCell n a)))) = 0
      \<and> m_width (base (LimitCell_RecalculateWidths ops fontsize
                          (Cell b (LimitCell nm u bs op cm cl)))) = 0
      \<and> m_height (base (LimitCell_RecalculateHeight ops fontsize
                           (Cell b (LimitCell nm u bs op cm cl))))
          = GetHeightList ops (RecalculateHeightList ops fontsize nm)
      \<and> m_center (base (LimitCell_RecalculateHeight ops fontsize
                           (Cell b (LimitCell nm u bs op cm cl))))
          = GetCenterList ops (RecalculateHeightList ops fontsize nm))
   \<and> (\<not> NeedsRecalculation b fontsize \<longrightarrow>
      FunCell_RecalculateWidths ops fontsize (Cell b (FunCell n a)) = Cell b (FunCell n a)
      \<and> FunCell_RecalculateHeight ops fontsize (Cell b (FunCell n a)) = Cell b (FunCell n a)
      \<and> LimitCell_RecalculateWidths ops fontsize (Cell b (LimitCell nm u bs op cm cl))
          = Cell b (LimitCell nm u bs op cm cl)
      \<and> LimitCell_RecalculateHeight ops fontsize (Cell b (LimitCell nm u bs op cm cl))
          = Cell b (LimitCell nm u bs op cm cl))"
  by (simp add: Let_def Cell_RecalculateWidths_def Cell_RecalculateHeight_def)

text \<open>
  The claim as it was stated fails: the limit cell \<^verbatim>\<open>lim\<close> of \<^verbatim>\<open>f(x)\<close> for
  \<^verbatim>\<open>x->0\<close>, broken into lines by \<^verbatim>\<open>BreakUp\<close> and then measured at font size 12, has a
  height that is not 0.
\<close>

theorem Recalculate_broken_counterexample:
  "broken (snd (LimitCell_BreakUp ops0 (limit_example ''x->0'')))
   \<and> m_height (base (LimitCell_RecalculateHeight ops0 12
                        (snd (LimitCell_BreakUp ops0 (limit_example ''x->0''))))) \<noteq> 0"
  by (simp add: broken_def limit_example_def new_Cell_def new_TextCell_def ops0_def
        NeedsRecalculation_def Cell_RecalculateHeight_def Let_def on_last_def on_head_def get_def
        Cell_GetNextToDrawImpl_def)

theorem Recalculate_broken_witness:
  "m_width (base (FunCell_RecalculateWidths ops0 12 (break_base sin_x))) = 0
   \<and> m_height (base (FunCell_RecalculateHeight ops0 12 (break_base sin_x))) = 0
   \<and> m_width (base (LimitCell_RecalculateWidths ops0 12
                       (break_base (limit_example ''x->0'')))) = 0
   \<and> m_height (base (LimitCell_RecalculateHeight ops0 12
                        (break_base (limit_example ''x->0'')))) = 24
   \<and> m_center (base (LimitCell_RecalculateHeight ops0 12
                        (break_base (limit_example ''x->0'')))) = 12
   \<and> FunCell_RecalculateWidths ops0 (- 1) (break_base sin_x) = break_base sin_x"
proof -
  have g: "m_isBrokenIntoLines ((new_Cell 0)\<lparr> m_isBrokenIntoLines := True \<rparr>)
           \<and> NeedsRecalculation ((new_Cell 0)\<lparr> m_isBrokenIntoLines := True \<rparr>) 12"
    and h: "\<not> NeedsRecalculation ((new_Cell 0)\<lparr> m_isBrokenIntoLines := True \<rparr>) (- 1)"
    by (simp_all add: new_Cell_def NeedsRecalculation_def)
  have v: "GetHeightList ops0
             (RecalculateHeightList ops0 12 [new_TextCell 4 (wxT ''lim'') TS_DEFAULT]) = 24"
    "GetCenterList ops0
       (RecalculateHeightList ops0 12 [new_TextCell 4 (wxT ''lim'') TS_DEFAULT]) = 12"
    by (simp_all add: ops0_def new_TextCell_def)
  show ?thesis
    using g h v
      Recalculate_broken [of "(new_Cell 0)\<lparr> m_isBrokenIntoLines := True \<rparr>" 12 ops0
        "[new_TextCell 1 (wxT ''sin'') TS_FUNCTION]" "[new_TextCell 2 (wxT ''(x)'') TS_DEFAULT]"
        "[new_TextCell 4 (wxT ''lim'') TS_DEFAULT]" "[new_TextCell 5 (wxT ''x->0'') TS_DEFAULT]"
        "[new_TextCell 6 (wxT ''f(x)'') TS_DEFAULT]" "[new_TextCell 1 (wxT ''('') TS_FUNCTION]"
        "[new_TextCell 2 (wxT '','') TS_FUNCTION]" "[new_TextCell 3 (wxT '')'') TS_FUNCTION]"]
      Recalculate_broken [of "(new_Cell 0)\<lparr> m_isBrokenIntoLines := True \<rparr>" "- 1" ops0
        "[new_TextCell 1 (wxT ''sin'') TS_FUNCTION]" "[new_TextCell 2 (wxT ''(x)'') TS_DEFAULT]"
        "[new_TextCell 4 (wxT ''lim'') TS_DEFAULT]" "[new_TextCell 5 (wxT ''x->0'') TS_DEFAULT]"
        "[new_TextCell 6 (wxT ''f(x)'') TS_DEFAULT]" "[new_TextCell 1 (wxT ''('') TS_FUNCTION]"
        "[new_TextCell 2 (wxT '','') TS_FUNCTION]" "[new_TextCell 3 (wxT '')'') TS_FUNCTION]"]
    unfolding sin_x_def limit_example_def break_base_def by simp
qed














subsection \<open>Rendering\<close>

lemma Find_arrow:
  "Find (wxT ''x->0'') (wxT ''->'') = 1"
  "Find (wxT ''x->0+'') (wxT ''->'') = 1"
  "Find (wxT ''x->0-'') (wxT ''->'') = 1"
  by code_simp+

lemma SubString_var:
  "SubString (wxT ''x->0'') 0 0 = wxT ''x''"
  "SubString (wxT ''x->0+'') 0 0 = wxT ''x''"
  "SubString (wxT ''x->0-'') 0 0 = wxT ''x''"
  by code_simp+

lemma limit_to_target:
  "limit_to (SubString (wxT ''x->0'') 3 3) = wxT ''0''"
  "limit_to (SubString (wxT ''x->0+'') 3 4) = wxT ''0,plus''"
  "limit_to (SubString (wxT ''x->0-'') 3 4) = wxT ''0,minus''"
  by code_simp+

text \<open>
  Claim C7. For a limit cell whose under chain renders to \<^verbatim>\<open>x->0\<close> and whose base
  chain renders to \<^verbatim>\<open>f(x)\<close>, \<^verbatim>\<open>ToString\<close> is exactly \<^verbatim>\<open>limit(f(x),x,0)\<close>; with the
  under chain rendering to \<^verbatim>\<open>x->0+\<close> it is \<^verbatim>\<open>limit(f(x),x,0,plus)\<close>, and with
  \<^verbatim>\<open>x->0-\<close> it is \<^verbatim>\<open>limit(f(x),x,0,minus)\<close>.
\<close>

theorem LimitCell_ToString_one_sided:
  "(ListToString ops u = wxT ''x->0'' \<and> ListToString ops bs = wxT ''f(x)'' \<longrightarrow>
      LimitCell_ToString ops (Cell b (LimitCell nm u bs op cm cl)) = wxT ''limit(f(x),x,0)'')
   \<and> (ListToString ops u = wxT ''x->0+'' \<and> ListToString ops bs = wxT ''f(x)'' \<longrightarrow>
      LimitCell_ToString ops (Cell b (LimitCell nm u bs op cm cl)) = wxT ''limit(f(x),x,0,plus)'')
   \<and> (ListToString ops u = wxT ''x->0-'' \<and> ListToString ops bs = wxT ''f(x)'' \<longrightarrow>
      LimitCell_ToString ops (Cell b (LimitCell nm u bs op cm cl))
        = wxT ''limit(f(x),x,0,minus)'')"
proof (intro conjI impI)
  assume h: "ListToString ops u = wxT ''x->0'' \<and> ListToString ops bs = wxT ''f(x)''"
  have "LimitCell_ToString ops (Cell b (LimitCell nm u bs op cm cl)) =
        wxT ''limit('' @ wxT ''f(x)'' @ wxT '','' @ SubString (wxT ''x->0'') 0 0 @ wxT '',''
          @ limit_to (SubString (wxT ''x->0'') 3 3) @ wxT '')''"
    using h Find_arrow(1) by (simp add: Let_def)
  then show "LimitCell_ToString ops (Cell b (LimitCell nm u bs op cm cl))
               = wxT ''limit(f(x),x,0)''"
    by (simp add: SubString_var(1) [simplified] limit_to_target(1) [simplified])
next
  assume h: "ListToString ops u = wxT ''x->0+'' \<and> ListToString ops bs = wxT ''f(x)''"
  have "LimitCell_ToString ops (Cell b (LimitCell nm u bs op cm cl)) =
        wxT ''limit('' @ wxT ''f(x)'' @ wxT '','' @ SubString (wxT ''x->0+'') 0 0 @ wxT '',''
          @ limit_to (SubString (wxT ''x->0+'') 3 4) @ wxT '')''"
    using h Find_arrow(2) by (simp add: Let_def)
  then show "LimitCell_ToString ops (Cell b (LimitCell nm u bs op cm cl))
               = wxT ''limit(f(x),x,0,plus)''"
    by (simp add: SubString_var(2) [simplified] limit_to_target(2) [simplified])
next
  assume h: "ListToString ops u = wxT ''x->0-'' \<and> ListToString ops bs = wxT ''f(x)''"
  have "LimitCell_ToString ops (Cell b (LimitCell nm u bs op cm cl)) =
        wxT ''limit('' @ wxT ''f(x)'' @ wxT '','' @ SubString (wxT ''x->0-'') 0 0 @ wxT '',''
          @ limit_to (SubString (wxT ''x->0-'') 3 4) @ wxT '')''"
    using h Find_arrow(3) by (simp add: Let_def)
  then show "LimitCell_ToString ops (Cell b (LimitCell nm u bs op cm cl))
               = wxT ''limit(f(x),x,0,minus)''"
    by (simp add: SubString_var(3) [simplified] limit_to_target(3) [simplified])
qed

theorem LimitCell_ToString_one_sided_witness:
  "LimitCell_ToString ops0 (limit_example ''x->0'') = wxT ''limit(f(x),x,0)''
   \<and> LimitCell_ToString ops0 (limit_example ''x->0+'') = wxT ''limit(f(x),x,0,plus)''
   \<and> LimitCell_ToString ops0 (limit_example ''x->0-'') = wxT ''limit(f(x),x,0,minus)''"
proof -
  have u: "ListToString ops0 [new_TextCell 5 (wxT str) TS_DEFAULT] = wxT str" for str
    by (simp add: ops0_def GetValue_def new_TextCell_def)
  have b: "ListToString ops0 [new_TextCell 6 (wxT ''f(x)'') TS_DEFAULT] = wxT ''f(x)''"
    by (simp add: ops0_def GetValue_def new_TextCell_def)
  show ?thesis
    using LimitCell_ToString_one_sided [of ops0 "[new_TextCell 5 (wxT ''x->0'') TS_DEFAULT]"
        "[new_TextCell 6 (wxT ''f(x)'') TS_DEFAULT]" "new_Cell 0"
        "[new_TextCell 4 (wxT ''lim'') TS_DEFAULT]" "[new_TextCell 1 (wxT ''('') TS_FUNCTION]"
        "[new_TextCell 2 (wxT '','') TS_FUNCTION]" "[new_TextCell 3 (wxT '')'') TS_FUNCTION]"]
      LimitCell_ToString_one_sided [of ops0 "[new_TextCell 5 (wxT ''x->0+'') TS_DEFAULT]"
        "[new_TextCell 6 (wxT ''f(x)'') TS_DEFAULT]" "new_Cell 0"
        "[new_TextCell 4 (wxT ''lim'') TS_DEFAULT]" "[new_TextCell 1 (wxT ''('') TS_FUNCTION]"
        "[new_TextCell 2 (wxT '','') TS_FUNCTION]" "[new_TextCell 3 (wxT '')'') TS_FUNCTION]"]
      LimitCell_ToString_one_sided [of ops0 "[new_TextCell 5 (wxT ''x->0-'') TS_DEFAULT]"
        "[new_TextCell 6 (wxT ''f(x)'') TS_DEFAULT]" "new_Cell 0"
        "[new_TextCell 4 (wxT ''lim'') TS_DEFAULT]" "[new_TextCell 1 (wxT ''('') TS_FUNCTION]"
        "[new_TextCell 2 (wxT '','') TS_FUNCTION]" "[new_TextCell 3 (wxT '')'') TS_FUNCTION]"]
      u [of "''x->0''"] u [of "''x->0+''"] u [of "''x->0-''"] b
    unfolding limit_example_def by simp
qed

text \<open>
  Claim C8, as amended. For a function cell that is not broken into lines: if the rendering
  of its name cell is one of sin, cos, cosh, sinh, log, cot, sec, csc and tan, \<^verbatim>\<open>ToTeX\<close>
  is a backslash, the name, an opening brace, the TeX of the argument chain and a closing
  brace; for every other name it is the TeX of the name chain followed by the TeX of the
  argument chain. For a function cell that is broken into lines \<^verbatim>\<open>ToTeX\<close> is the empty
  string.
\<close>

theorem FunCell_ToTeX_known_names:
  "(\<not> m_isBrokenIntoLines b \<longrightarrow>
      (ToString ops n \<in> set TeX_function_names \<longrightarrow>
         FunCell_ToTeX ops (Cell b (FunCell n a))
           = wxT [CHR 0x5C] @ ToString ops n @ wxT ''{'' @ ListToTeX ops a @ wxT ''}'')
      \<and> (ToString ops n \<notin> set TeX_function_names \<longrightarrow>
         FunCell_ToTeX ops (Cell b (FunCell n a)) = ListToTeX ops n @ ListToTeX ops a))
   \<and> (m_isBrokenIntoLines b \<longrightarrow> FunCell_ToTeX ops (Cell b (FunCell n a)) = wxEmptyString)"
  by (auto simp add: TeX_function_names_def)

text \<open>
  The claim as it was stated fails: the function cell of \<^verbatim>\<open>sin\<close> and \<^verbatim>\<open>(x)\<close>, broken
  into lines by \<^verbatim>\<open>BreakUp\<close>, has the name rendering \<^verbatim>\<open>sin\<close> and the argument rendering
  \<^verbatim>\<open>(x)\<close>, and its \<^verbatim>\<open>ToTeX\<close> is not the backslash form.
\<close>

theorem FunCell_ToTeX_known_names_counterexample:
  "ToString ops0 (m_nameCell_of (snd (FunCell_BreakUp ops0 sin_x))) = wxT ''sin''
   \<and> ListToTeX ops0 (m_argCell_of (snd (FunCell_BreakUp ops0 sin_x))) = wxT ''(x)''
   \<and> FunCell_ToTeX ops0 (snd (FunCell_BreakUp ops0 sin_x)) \<noteq> wxT [CHR 0x5C] @ wxT ''sin{(x)}''"
  by (simp add: sin_x_def m_nameCell_of_def m_argCell_of_def ops0_def GetValue_def
        new_TextCell_def new_Cell_def wxEmptyString_def Let_def on_last_def get_def
        Cell_GetNextToDrawImpl_def)

theorem FunCell_ToTeX_known_names_witness:
  "FunCell_ToTeX ops0 sin_x = wxT [CHR 0x5C] @ wxT ''sin{(x)}''
   \<and> FunCell_ToTeX ops0 foo_x = wxT ''foo(x)''
   \<and> FunCell_ToTeX ops0 (break_base sin_x) = wxEmptyString"
proof -
  have u: "\<not> m_isBrokenIntoLines (new_Cell 0)"
    and b: "m_isBrokenIntoLines ((new_Cell 0)\<lparr> m_isBrokenIntoLines := True \<rparr>)"
    by (simp_all add: new_Cell_def)
  have s: "ToString ops0 [new_TextCell 1 (wxT ''sin'') TS_FUNCTION] \<in> set TeX_function_names"
    and f: "ToString ops0 [new_TextCell 1 (wxT ''foo'') TS_FUNCTION] \<notin> set TeX_function_names"
    by (simp_all add: ops0_def GetValue_def new_TextCell_def TeX_function_names_def)
  have v: "ToString ops0 [new_TextCell 1 (wxT ''sin'') TS_FUNCTION] = wxT ''sin''"
    "ListToTeX ops0 [new_TextCell 1 (wxT ''foo'') TS_FUNCTION] = wxT ''foo''"
    "ListToTeX ops0 [new_TextCell 2 (wxT ''(x)'') TS_DEFAULT] = wxT ''(x)''"
    by (simp_all add: ops0_def GetValue_def new_TextCell_def)
  show ?thesis
    using u b s f v
      FunCell_ToTeX_known_names [of "new_Cell 0" ops0
        "[new_TextCell 1 (wxT ''sin'') TS_FUNCTION]" "[new_TextCell 2 (wxT ''(x)'') TS_DEFAULT]"]
      FunCell_ToTeX_known_names [of "new_Cell 0" ops0
        "[new_TextCell 1 (wxT ''foo'') TS_FUNCTION]" "[new_TextCell 2 (wxT ''(x)'') TS_DEFAULT]"]
      FunCell_ToTeX_known_names [of "(new_Cell 0)\<lparr> m_isBrokenIntoLines := True \<rparr>" ops0
        "[new_TextCell 1 (wxT ''sin'') TS_FUNCTION]" "[new_TextCell 2 (wxT ''(x)'') TS_DEFAULT]"]
    unfolding sin_x_def foo_x_def break_base_def by simp
qed

subsection \<open>Required children\<close>

text \<open>
  Claim C9, as amended. Each operation that installs a required child, handed a null
  pointer, installs a newly allocated placeholder cell that carries a tooltip:
  \<^verbatim>\<open>HandleNullPointer\<close> returns the error-styled cell \<open>missing_contents\<close>, the argument
  setter of the function cell and the three setters of the limit cell install the
  error-styled invalid cell, and the name setter of the function cell installs the invalid
  cell in the function style, since it gives whatever it installs that style. Whatever
  pointer the operation is handed, the child it installs or returns is not null.
\<close>

theorem required_child_placeholder:
  "FunCell_SetName [] (Cell b (FunCell n a)) heap
     = (Cell b (FunCell [SetStyle TS_FUNCTION (VisiblyInvalidCell heap)] a), Suc heap)
   \<and> FunCell_SetArg [] (Cell b (FunCell n a)) heap
     = (Cell b (FunCell n [VisiblyInvalidCell heap]), Suc heap)
   \<and> LimitCell_SetName [] (Cell b (LimitCell nm u bs op cm cl)) heap
     = (Cell b (LimitCell [VisiblyInvalidCell heap] u bs op cm cl), Suc heap)
   \<and> LimitCell_SetUnder [] (Cell b (LimitCell nm u bs op cm cl)) heap
     = (Cell b (LimitCell nm [VisiblyInvalidCell heap] bs op cm cl), Suc heap)
   \<and> LimitCell_SetBase [] (Cell b (LimitCell nm u bs op cm cl)) heap
     = (Cell b (LimitCell nm u [VisiblyInvalidCell heap] op cm cl), Suc heap)
   \<and> HandleNullPointer ext [] s
     = ([missing_contents ext (heap_top s)], s\<lparr> heap_top := Suc (heap_top s) \<rparr>)
   \<and> m_textStyle (base (missing_contents ext (heap_top s))) = TS_ERROR
   \<and> m_textStyle (base (VisiblyInvalidCell heap)) = TS_ERROR
   \<and> m_toolTip (base (VisiblyInvalidCell heap)) \<noteq> wxEmptyString
   \<and> m_textStyle (base (SetStyle TS_FUNCTION (VisiblyInvalidCell heap))) = TS_FUNCTION
   \<and> m_toolTip (base (SetStyle TS_FUNCTION (VisiblyInvalidCell heap))) \<noteq> wxEmptyString
   \<and> m_nameCell_of (fst (FunCell_SetName p (Cell b (FunCell n a)) heap)) \<noteq> []
   \<and> m_argCell_of (fst (FunCell_SetArg p (Cell b (FunCell n a)) heap)) \<noteq> []
   \<and> m_name_of (fst (LimitCell_SetName p (Cell b (LimitCell nm u bs op cm cl)) heap)) \<noteq> []
   \<and> m_under_of (fst (LimitCell_SetUnder p (Cell b (LimitCell nm u bs op cm cl)) heap)) \<noteq> []
   \<and> m_base_of (fst (LimitCell_SetBase p (Cell b (LimitCell nm u bs op cm cl)) heap)) \<noteq> []
   \<and> fst (HandleNullPointer ext p s) \<noteq> []"
  by (simp add: InvalidCellOr_def HandleNullPointer_def alloc_def missing_contents_def
        VisiblyInvalidCell_def new_TextCell_def SetStyle_def SetToolTip_def on_head_def
        wxEmptyString_def m_nameCell_of_def m_argCell_of_def m_name_of_def m_under_of_def
        m_base_of_def Let_def split: list.split)

text \<open>
  The claim as it was stated fails: the child that the name setter of a function cell
  installs for a null pointer is not error-styled.
\<close>

theorem required_child_placeholder_counterexample:
  "m_nameCell_of (fst (FunCell_SetName [] (Cell (new_Cell 0) (FunCell [] [])) 1))
     = [SetStyle TS_FUNCTION (VisiblyInvalidCell 1)]
   \<and> m_textStyle (base (SetStyle TS_FUNCTION (VisiblyInvalidCell 1))) \<noteq> TS_ERROR"
  by (simp add: InvalidCellOr_def m_nameCell_of_def on_head_def SetStyle_def)


section \<open>Properties of the parser\<close>

lemmas parse_defs = and_then_def deref_def HandleNullPointer_ParseTag_def HandleNullPointer_def
  ParseFunTag_def ParseParenTag_def ParseMiscTextTag_def ParseText_def ParseCommonAttrs_def
  SkipWhitespaceNode_def GetNextTag_def GetNext_def GetAttribute_def GetAttribute_ptr_def
  m_innerTags_def alloc_def with_heap_def new_FunCell_def InvalidCellOr_def on_head_def
  tokens_STRTOK_def new_TextCell_def SetStyle_def SetType_def SetToolTip_def SetHighlight_def
  SetValue_def AppendCell_def VisiblyInvalidCell_def new_Cell_def

subsection \<open>What ParseTag returns for an element\<close>

text \<open>
  \<^verbatim>\<open>ParseTag\<close> keeps the fragment \<open>tmp\<close> of an element under the test \<^verbatim>\<open>if (!tmp)\<close>,
  that is when there is none. So whatever the routine of the tag builds, \<^verbatim>\<open>ParseTag\<close> on
  one element returns the null pointer whenever it returns.
\<close>

lemma ParseTag_element_null:
  assumes "GetType n = wxXML_ELEMENT_NODE" and "ParseTag ext fuel [n] all s = Inr (r, s')"
  shows "r = []"
proof (cases fuel)
  case 0
  with assms show ?thesis by simp
next
  case (Suc k)
  have sk: "SkipWhitespaceNode ext [n] = [n]"
    using assms(1) by (simp add: SkipWhitespaceNode_def)
  have nx: "GetNextTag ext [n] = []"
    by (simp add: GetNextTag_def GetNext_def SkipWhitespaceNode_def)
  show ?thesis
    using assms Suc
    by (auto simp add: sk nx and_then_def ParseCommonAttrs_def
          split: sum.splits option.splits if_splits prod.splits)
qed

lemma ParseFunTag_fn_example:
  "\<exists>b n a s'. ParseFunTag ext (ParseTag ext (Suc (Suc k))) [fn_example] s
                  = Inr ([Cell b (FunCell n a)], s') \<and> n \<noteq> [] \<and> a \<noteq> []"
  by (simp add: fn_example_def element_def text_node_def parse_defs Let_def split: prod.splits)

text \<open>
  Claim C1 does not hold of the code. On the well-formed function application
  \<^verbatim>\<open><fn><t>f</t><p><t>x</t></p></fn>\<close>, with fuel for the three levels of the document,
  \<^verbatim>\<open>ParseTag\<close> returns the null pointer, in every state and whatever is taken from
  outside src/: the eight cells allocated on the way, the function cell among them, are
  dropped.
\<close>

theorem ParseTag_fn_absent:
  "ParseTag ext (Suc (Suc (Suc k))) [fn_example] all s
     = Inr ([], s\<lparr> heap_top := heap_top s + 8 \<rparr>)"
  by (simp add: fn_example_def element_def text_node_def parse_defs Let_def split: prod.splits)

text \<open>
  Claim C2 does not hold of the code. The children of \<^verbatim>\<open><bogus>hello</bogus>\<close> parse to
  the text cell of \<^verbatim>\<open>hello\<close>, and \<^verbatim>\<open>ParseTag\<close> on the element itself returns the null
  pointer; so it does on \<^verbatim>\<open><bogus><t>x</t></bogus>\<close>. No message box is shown on the
  way.
\<close>

theorem ParseTag_unknown_wrapper_absent:
  "ParseTag (ext0 0) (Suc k) [text_node ''hello''] True s
     = Inr ([hello_cell s], s\<lparr> heap_top := Suc (heap_top s) \<rparr>)
   \<and> ParseTag (ext0 0) (Suc (Suc k)) [element ''bogus'' [] [text_node ''hello'']] all s
     = Inr ([], s\<lparr> heap_top := Suc (heap_top s) \<rparr>)
   \<and> ParseTag ext (Suc (Suc k)) [element ''bogus'' [] [element ''t'' [] [text_node ''x'']]] all s
     = Inr ([], s\<lparr> heap_top := Suc (heap_top s) \<rparr>)
   \<and> messageBoxes (s\<lparr> heap_top := Suc (heap_top s) \<rparr>) = messageBoxes s"
  by (simp add: element_def text_node_def parse_defs Let_def cursor_next_def hello_cell_def
        cursor_AppendCell_def wxEmptyString_def ext0_def Trim_def split: prod.splits)

subsection \<open>The size limit\<close>

lemma length_long_input: "int (length long_input) = 6000"
  unfolding long_input_def length_replicate by simp

lemma Replace_long_input: "m_graphRegex_Replace (ext0 n) long_input = long_input"
  unfolding m_graphRegex_Replace_def long_input_def map_replicate
  by (simp add: ext0_def)

text \<open>
  Claim C3. Whatever the input and the configuration: if the threshold is not 0 and the
  input is at least as long as the threshold, \<^verbatim>\<open>ParseLine\<close> returns one warning-styled
  text cell that explains the limit, and hands nothing to the XML loader (the log of the
  loads is as it was); if the threshold is 0 or the input is shorter, \<^verbatim>\<open>ParseLine\<close>
  loads the XML and returns what \<^verbatim>\<open>ParseTag\<close> makes of the children of the root. The
  threshold is 0 or one of four presets.
\<close>

theorem ParseLine_size_governor:
  "(showLength ext \<noteq> 0 \<and> showLength ext \<le> int (length s0) \<longrightarrow>
      ParseLine ext fuel s0 style st
        = Inr ([too_long_cell ext (heap_top st)],
               st\<lparr> m_ParserStyle := style, m_FracStyle := FC_NORMAL, m_highlight := False,
                   heap_top := Suc (heap_top st) \<rparr>))
   \<and> (showLength ext = 0 \<or> int (length s0) < showLength ext \<longrightarrow>
      ParseLine ext fuel s0 style st
        = (let st = st\<lparr> m_ParserStyle := style, m_FracStyle := FC_NORMAL, m_highlight := False,
                         xmlLoads := m_graphRegex_Replace ext s0 # xmlLoads st \<rparr>
           in case xml_Load ext (m_graphRegex_Replace ext s0) of
                Some doc \<Rightarrow> ParseTag ext fuel (GetChildren doc) True st
              | None \<Rightarrow> Inr ([], st)))
   \<and> showLength ext \<in> {0, 6000, 20000, 50000, 250000}"
  by (auto simp add: ParseLine_def Let_def alloc_def too_long_cell_def new_TextCell_def
        SetToolTip_def ForceBreakLine_def m_graphRegex_Replace_def showLength_def)

theorem ParseLine_size_governor_witness:
  "ParseLine (ext0 0) 3 long_input MC_TYPE_TEXT st0
     = Inr ([too_long_cell (ext0 0) 0],
            st0\<lparr> m_ParserStyle := MC_TYPE_TEXT, m_FracStyle := FC_NORMAL, m_highlight := False,
                 heap_top := 1 \<rparr>)
   \<and> ParseLine (ext0 3) 3 long_input MC_TYPE_TEXT st0
     = ParseTag (ext0 3) 3 [text_node ''hello''] True
         (st0\<lparr> m_ParserStyle := MC_TYPE_TEXT, m_FracStyle := FC_NORMAL, m_highlight := False,
               xmlLoads := [long_input] \<rparr>)
   \<and> ParseLine (ext0 0) 3 (wxT ''hello'') MC_TYPE_TEXT st0
     = ParseTag (ext0 0) 3 [text_node ''hello''] True
         (st0\<lparr> m_ParserStyle := MC_TYPE_TEXT, m_FracStyle := FC_NORMAL, m_highlight := False,
               xmlLoads := [wxT ''hello''] \<rparr>)"
proof -
  have a: "showLength (ext0 0) \<noteq> 0 \<and> showLength (ext0 0) \<le> int (length long_input)"
    and b: "showLength (ext0 3) = 0 \<or> int (length long_input) < showLength (ext0 3)"
    and c: "showLength (ext0 0) = 0 \<or> int (length (wxT ''hello'')) < showLength (ext0 0)"
    by (simp_all add: showLength_def ext0_def length_long_input)
  have r: "m_graphRegex_Replace (ext0 0) (wxT ''hello'') = wxT ''hello''"
    by (simp add: m_graphRegex_Replace_def ext0_def)
  have l: "xml_Load (ext0 n) str = Some (element ''wxxml'' [] [text_node ''hello''])" for n str
    by (simp add: ext0_def)
  have h: "heap_top st0 = 0" "xmlLoads st0 = []" by (simp_all add: st0_def)
  have g: "GetChildren (element ''wxxml'' [] [text_node ''hello'']) = [text_node ''hello'']"
    by (simp add: element_def)
  from a ParseLine_size_governor [of "ext0 0" long_input 3 MC_TYPE_TEXT st0]
  have 1: "ParseLine (ext0 0) 3 long_input MC_TYPE_TEXT st0
     = Inr ([too_long_cell (ext0 0) 0],
            st0\<lparr> m_ParserStyle := MC_TYPE_TEXT, m_FracStyle := FC_NORMAL, m_highlight := False,
                 heap_top := 1 \<rparr>)"
    by (simp add: h)
  from b ParseLine_size_governor [of "ext0 3" long_input 3 MC_TYPE_TEXT st0]
  have 2: "ParseLine (ext0 3) 3 long_input MC_TYPE_TEXT st0
     = ParseTag (ext0 3) 3 [text_node ''hello''] True
         (st0\<lparr> m_ParserStyle := MC_TYPE_TEXT, m_FracStyle := FC_NORMAL, m_highlight := False,
               xmlLoads := [long_input] \<rparr>)"
    by (simp add: h l g Replace_long_input Let_def)
  from c ParseLine_size_governor [of "ext0 0" "wxT ''hello''" 3 MC_TYPE_TEXT st0]
  have 3: "ParseLine (ext0 0) 3 (wxT ''hello'') MC_TYPE_TEXT st0
     = ParseTag (ext0 0) 3 [text_node ''hello''] True
         (st0\<lparr> m_ParserStyle := MC_TYPE_TEXT, m_FracStyle := FC_NORMAL, m_highlight := False,
               xmlLoads := [wxT ''hello''] \<rparr>)"
    by (simp add: h l g r [simplified] Let_def)
  from 1 2 3 show ?thesis by blast
qed

subsection \<open>The loop over folded cells\<close>

lemma decimal_1: "decimal (Suc 0) = [49]"
  by (simp add: decimal.simps [of "Suc 0"])

lemmas cell_defs = and_then_def deref_def ParseCellTag_def m_groupTags_def m_innerTags_def
  GroupCellFromCodeTag_def new_GroupCell_def new_object_def alloc_def GetAttribute_def
  GetAttribute_ptr_def ParseCommonGroupCellAttrs_def ParseCommonAttrs_def SkipWhitespaceNode_def
  GetNextTag_def GetNext_def decimal_1 AutoAnswer_def on_GroupCell_def
  SetSuppressTooltipMarker_def SetGroup_def Hide_def

lemma ParseTag_folded_cell_bogus:
  "ParseTag ext (Suc k) [element ''cell'' [(''type'', ''bogus'')] []] False s = Inr ([], s)"
  by (simp add: element_def cell_defs Let_def split: prod.splits)

lemma ParseTag_folded_cell_code:
  "ParseTag ext (Suc k) [element ''cell'' [(''type'', ''code'')] []] False s
     = Inr ([], s\<lparr> heap_top := Suc (heap_top s) \<rparr>)"
  by (simp add: element_def cell_defs Let_def split: prod.splits)

text \<open>
  A round of the loop that finds no cell goes on with the same node (\<^verbatim>\<open>continue\<close> comes
  before \<^verbatim>\<open>GetNextTag\<close>): on a node for which \<^verbatim>\<open>ParseTag\<close> finds no cell in any state,
  the loop uses up whatever fuel it is given.
\<close>

lemma ParseCellTag_fold_never_ends:
  assumes "\<And>s. pt [inner] False s = Inl OutOfFuel \<or> (\<exists>s'. pt [inner] False s = Inr ([], s'))"
  shows "ParseCellTag_fold ext pt fuel [inner] tree last' s = Inl OutOfFuel"
proof (induction fuel arbitrary: s)
  case 0
  show ?case by simp
next
  case (Suc fuel)
  from assms [of s] show ?case
  proof
    assume "pt [inner] False s = Inl OutOfFuel"
    then show ?thesis by (simp add: and_then_def)
  next
    assume "\<exists>s'. pt [inner] False s = Inr ([], s')"
    then obtain s' where "pt [inner] False s = Inr ([], s')" ..
    then show ?thesis using Suc.IH [of s'] by (simp add: and_then_def)
  qed
qed

lemma ParseTag_folded_cell_bogus_cases:
  "ParseTag ext k [element ''cell'' [(''type'', ''bogus'')] []] False s = Inl OutOfFuel
   \<or> (\<exists>s'. ParseTag ext k [element ''cell'' [(''type'', ''bogus'')] []] False s = Inr ([], s'))"
proof (cases k)
  case 0
  then show ?thesis by simp
next
  case (Suc k')
  then show ?thesis using ParseTag_folded_cell_bogus [of ext k' s] by blast
qed

lemma ParseTag_folded_cell_code_cases:
  "ParseTag ext k [element ''cell'' [(''type'', ''code'')] []] False s = Inl OutOfFuel
   \<or> (\<exists>s'. ParseTag ext k [element ''cell'' [(''type'', ''code'')] []] False s = Inr ([], s'))"
proof (cases k)
  case 0
  then show ?thesis by simp
next
  case (Suc k')
  then show ?thesis using ParseTag_folded_cell_code [of ext k' s] by blast
qed

lemma ParseTag_fold_example:
  assumes "\<And>s'. ParseCellTag_fold ext (ParseTag ext k) k [element ''cell'' [(''type'', type)] []]
                    [] None s' = Inl OutOfFuel"
  shows "ParseTag ext (Suc k) [fold_example type] all s = Inl OutOfFuel"
  using assms [unfolded element_def, simplified]
  by (simp add: fold_example_def element_def cell_defs Let_def split: prod.splits)

text \<open>
  Claim C10 does not hold of the code. On a code cell whose \<^verbatim>\<open>fold\<close> element holds one
  cell, of an unknown type or of the type \<^verbatim>\<open>code\<close>, \<^verbatim>\<open>ParseTag\<close> does not return: with
  any amount of fuel, in every state and whatever is taken from outside src/, it runs out
  of fuel.
\<close>

theorem ParseCellTag_fold_diverges:
  "ParseTag ext fuel [fold_example ''bogus''] all s = Inl OutOfFuel
   \<and> ParseTag ext fuel [fold_example ''code''] all s = Inl OutOfFuel"
proof (cases fuel)
  case 0
  then show ?thesis by simp
next
  case (Suc k)
  have "ParseTag ext (Suc k) [fold_example ''bogus''] all s = Inl OutOfFuel"
    by (rule ParseTag_fold_example, rule ParseCellTag_fold_never_ends,
        rule ParseTag_folded_cell_bogus_cases)
  moreover have "ParseTag ext (Suc k) [fold_example ''code''] all s = Inl OutOfFuel"
    by (rule ParseTag_fold_example, rule ParseCellTag_fold_never_ends,
        rule ParseTag_folded_cell_code_cases)
  ultimately show ?thesis using Suc by simp
qed

end
